theory Spec2Isabelle
  imports Main
begin

section \<open>JavaScript string operations used by the sources\<close>

text \<open>
  Strings are lists of characters, one list element per code unit of the JavaScript
  string. The helpers below are the \<^verbatim>\<open>String.prototype\<close> methods that the
  interceptor and the credential controller call, restricted to the way they are called
  there (constant, non-empty separators and patterns).
\<close>

definition startsWith :: "string \<Rightarrow> string \<Rightarrow> bool" where
  "startsWith s p = (take (length p) s = p)"

definition endsWith :: "string \<Rightarrow> string \<Rightarrow> bool" where
  "endsWith s p = (length p \<le> length s \<and> drop (length s - length p) s = p)"

text \<open>
  \<^verbatim>\<open>s.split(sep)\<close> for a non-empty string separator: the pieces between the
  occurrences of \<^verbatim>\<open>sep\<close>, scanned from the left. The accumulator holds the current
  piece reversed. (For the empty separator, which no call site uses, the whole string is
  one piece here.)
\<close>

function split_acc :: "string \<Rightarrow> string \<Rightarrow> string \<Rightarrow> string list" where
  "split_acc sep acc [] = [rev acc]"
| "split_acc sep acc (c # cs) =
     (if sep \<noteq> [] \<and> startsWith (c # cs) sep
      then rev acc # split_acc sep [] (drop (length sep) (c # cs))
      else split_acc sep (c # acc) cs)"
  by pat_completeness auto
termination
  by (relation "measure (\<lambda>(sep, acc, s). length s)") auto

definition split :: "string \<Rightarrow> string \<Rightarrow> string list" where
  "split s sep = split_acc sep [] s"

text \<open>\<^verbatim>\<open>xs[i]\<close> on a JavaScript array: \<^verbatim>\<open>undefined\<close> out of range.\<close>

fun at :: "'a list \<Rightarrow> nat \<Rightarrow> 'a option" where
  "at [] i = None"
| "at (x # xs) 0 = Some x"
| "at (x # xs) (Suc i) = at xs i"

text \<open>
  \<^verbatim>\<open>s.indexOf(p)\<close>: the least position at which \<^verbatim>\<open>p\<close> occurs in \<^verbatim>\<open>s\<close>,
  \<^verbatim>\<open>None\<close> for JavaScript's \<^verbatim>\<open>-1\<close>.
\<close>

fun indexOf_from :: "nat \<Rightarrow> string \<Rightarrow> string \<Rightarrow> nat option" where
  "indexOf_from i [] p = (if p = [] then Some i else None)"
| "indexOf_from i (c # cs) p =
     (if startsWith (c # cs) p then Some i else indexOf_from (Suc i) cs p)"

definition indexOf :: "string \<Rightarrow> string \<Rightarrow> nat option" where
  "indexOf s p = indexOf_from 0 s p"

text \<open>\<^verbatim>\<open>s.substring(i, j)\<close> for \<^verbatim>\<open>i \<le> j\<close>.\<close>

definition substring :: "string \<Rightarrow> nat \<Rightarrow> nat \<Rightarrow> string" where
  "substring s i j = take (j - i) (drop i s)"

text \<open>\<^verbatim>\<open>s.replace(p, r)\<close> with a string pattern: only the first occurrence.\<close>

definition replace_first :: "string \<Rightarrow> string \<Rightarrow> string \<Rightarrow> string" where
  "replace_first s p r =
     (case indexOf s p of
        None \<Rightarrow> s
      | Some i \<Rightarrow> take i s @ r @ drop (i + length p) s)"

text \<open>\<^verbatim>\<open>s.replace(/c/g, ' ')\<close> for a one-character pattern \<^verbatim>\<open>c\<close>.\<close>

definition replace_all_char :: "char \<Rightarrow> string \<Rightarrow> string" where
  "replace_all_char c s = map (\<lambda>x. if x = c then CHR '' '' else x) s"

text \<open>Character classes of the two regular expressions of the interceptor.\<close>

definition lower_or_digit :: "char \<Rightarrow> bool" where
  "lower_or_digit c =
     (let n = (of_char c :: nat) in (97 \<le> n \<and> n \<le> 122) \<or> (48 \<le> n \<and> n \<le> 57))"

text \<open>\<^verbatim>\<open>nearId.match('^[a-z0-9_-]+$')\<close>\<close>

definition match_near_id :: "string \<Rightarrow> bool" where
  "match_near_id s =
     (s \<noteq> [] \<and> list_all (\<lambda>c. lower_or_digit c \<or> c = CHR ''_'' \<or> c = CHR ''-'') s)"

text \<open>\<^verbatim>\<open>username.match('^[a-z0-9_]+$')\<close>\<close>

definition match_username :: "string \<Rightarrow> bool" where
  "match_username s = (s \<noteq> [] \<and> list_all (\<lambda>c. lower_or_digit c \<or> c = CHR ''_'') s)"

section \<open>Errors\<close>

text \<open>
  Every \<^verbatim>\<open>throw\<close> of the sources is a value. \<^verbatim>\<open>Error\<close> is the plain JavaScript
  error, \<^verbatim>\<open>TypeError\<close> is what reading a property of \<^verbatim>\<open>undefined\<close> raises
  (it carries the name of the property; its message is the text of the JavaScript engine),
  \<^verbatim>\<open>EntityNotFound\<close> is what the repository's \<^verbatim>\<open>findById\<close> raises for a missing
  record, \<^verbatim>\<open>ChainError\<close> is a failure of the chain client. The others are the
  \<^verbatim>\<open>HttpErrors\<close> classes with their message.
\<close>

datatype HttpError =
    UnprocessableEntity string
  | Unauthorized string
  | Forbidden string
  | NotFound string
  | Error string
  | TypeError string
  | EntityNotFound string
  | ChainError string

fun message :: "HttpError \<Rightarrow> string" where
  "message (UnprocessableEntity m) = m"
| "message (Unauthorized m) = m"
| "message (Forbidden m) = m"
| "message (NotFound m) = m"
| "message (Error m) = m"
| "message (TypeError property) =
     ''Cannot read properties of undefined (reading '' @ [CHR 0x27] @ property @ [CHR 0x27] @ '')''"
| "message (EntityNotFound m) = m"
| "message (ChainError m) = m"

section \<open>Authentication interceptor: data\<close>

text \<open>
  The enums and models are imported by the interceptor from modules that are not among the
  sources; they are declared here with the members and fields the interceptor uses.
\<close>

datatype MethodType = SIGNUP | LOGIN | ADMINLOGIN

datatype NetworkType = NEAR | OtherNetwork string

datatype PermissionKeys = ADMIN | USER | OtherPermission string

record Network =
  n_id :: NetworkType
  n_rpcURL :: string

record User =
  u_id :: string
  u_name :: string
  u_username :: string
  u_createdAt :: string
  u_nonce :: int
  u_permissions :: "PermissionKeys list"

record Wallet =
  w_id :: string
  w_type :: string
  w_network :: NetworkType
  w_primary :: bool
  w_userId :: "string option"

record UserProfile =
  p_securityId :: string
  p_id :: string
  p_name :: string
  p_username :: string
  p_createdAt :: string
  p_permissions :: "PermissionKeys list"

text \<open>
  The login request body. \<^verbatim>\<open>nonce\<close> is \<^verbatim>\<open>None\<close> when the field is absent;
  \<^verbatim>\<open>data\<close> is the property that \<^verbatim>\<open>beforeAuthenticate\<close> attaches.
\<close>

record Credential =
  c_nonce :: "int option"
  c_publicAddress :: string
  c_signature :: string
  c_walletType :: string
  c_networkType :: NetworkType
  c_data :: "UserProfile option"

text \<open>The signup request body.\<close>

record UserWallet =
  uw_name :: string
  uw_username :: string
  uw_address :: string
  uw_type :: string
  uw_network :: NetworkType

text \<open>The three repositories the interceptor reads and writes.\<close>

record Store =
  users :: "User list"
  wallets :: "Wallet list"
  networks :: "Network list"

section \<open>Address and username validation\<close>

definition network_findById :: "Network list \<Rightarrow> NetworkType \<Rightarrow> HttpError + Network" where
  "network_findById ns k =
     (case find (\<lambda>n. n_id n = k) ns of
        None \<Rightarrow> Inl (EntityNotFound
                  (''Entity not found: Network with id '' @ [CHR 0x22] @ ''near'' @ [CHR 0x22]))
      | Some n \<Rightarrow> Inr n)"

definition first_piece :: "string \<Rightarrow> string \<Rightarrow> string" where
  "first_piece s sep = (case split s sep of [] \<Rightarrow> [] | x # _ \<Rightarrow> x)"

definition validateWalletAddress :: "Network list \<Rightarrow> string \<Rightarrow> HttpError + unit" where
  "validateWalletAddress ns ident =
     (if length ident = 66 then
        (if \<not> startsWith ident ''0x''
         then Inl (UnprocessableEntity ''Invalid polkadot address'')
         else Inr ())
      else if length ident = 42 then
        (if \<not> startsWith ident ''0x''
         then Inl (UnprocessableEntity ''Invalid ethereum address'')
         else Inr ())
      else
        (case network_findById ns NEAR of
           Inl e \<Rightarrow> Inl e
         | Inr nearNetwork \<Rightarrow>
             (let environment = at (split (n_rpcURL nearNetwork) ''.'') 1;
                  nearStatus = (if environment = Some ''development''
                                then endsWith ident ''.testnet''
                                else endsWith ident ''.near'');
                  nearId = (if environment = Some ''development''
                            then first_piece ident ''.testnet''
                            else first_piece ident ''.near'')
              in if \<not> nearStatus then Inl (UnprocessableEntity ''Invalid near id'')
                 else if \<not> match_near_id nearId then
                   Inl (UnprocessableEntity
                     ''Only allowed ascii letter (a-z), number (0-9), dash(-) and underscore(_)'')
                 else Inr ())))"

definition validateUsername :: "string \<Rightarrow> HttpError + unit" where
  "validateUsername username =
     (if username \<noteq> [] \<and> last username = CHR ''_'' then
        Inl (UnprocessableEntity
          ''Last character must be an ascii letter (a-z) or number (0-9)'')
      else if username \<noteq> [] \<and> hd username = CHR ''_'' then
        Inl (UnprocessableEntity
          ''Character must be start from an ascii letter (a-z) or number (0-9)'')
      else if \<not> match_username username then
        Inl (UnprocessableEntity
          ''Only allowed ascii letter (a-z), number (0-9), and underscore(_)'')
      else Inr ())"

section \<open>Authentication interceptor: login\<close>

definition network_exists :: "Network list \<Rightarrow> NetworkType \<Rightarrow> bool" where
  "network_exists ns k = list_ex (\<lambda>n. n_id n = k) ns"

definition wallet_exists :: "Wallet list \<Rightarrow> string \<Rightarrow> bool" where
  "wallet_exists ws k = list_ex (\<lambda>w. w_id w = k) ws"

text \<open>
  \<^verbatim>\<open>walletRepository.findOne({where: {id, type}, include: ['user']})\<close> followed by
  \<^verbatim>\<open>wallet?.user\<close>: the owner of the wallet with that id and type, if both exist.
\<close>

definition findWalletUser :: "Store \<Rightarrow> string \<Rightarrow> string \<Rightarrow> User option" where
  "findWalletUser st ident ty =
     (case find (\<lambda>w. w_id w = ident \<and> w_type w = ty) (wallets st) of
        None \<Rightarrow> None
      | Some w \<Rightarrow> find (\<lambda>u. Some (u_id u) = w_userId w) (users st))"

text \<open>
  lodash's \<^verbatim>\<open>intersection(xs, ys)\<close>: the values of \<^verbatim>\<open>xs\<close> that occur in
  \<^verbatim>\<open>ys\<close>, each once, in the order of their first occurrence in \<^verbatim>\<open>xs\<close>.
\<close>

fun uniq_acc :: "'a list \<Rightarrow> 'a list \<Rightarrow> 'a list" where
  "uniq_acc seen [] = []"
| "uniq_acc seen (x # xs) =
     (if List.member seen x then uniq_acc seen xs else x # uniq_acc (x # seen) xs)"

definition intersection :: "'a list \<Rightarrow> 'a list \<Rightarrow> 'a list" where
  "intersection xs ys = uniq_acc [] (filter (List.member ys) xs)"

text \<open>
  The capability check of \<^verbatim>\<open>beforeAuthenticate\<close> (the \<^verbatim>\<open>if\<close> on
  \<^verbatim>\<open>MethodType.ADMINLOGIN\<close>): the first element of the intersection is compared with
  the required key.
\<close>

definition checkPermission :: "MethodType \<Rightarrow> PermissionKeys list \<Rightarrow> HttpError + unit" where
  "checkPermission methodName perms =
     (if methodName = ADMINLOGIN then
        (let permission = at (intersection perms [ADMIN]) 0
         in if permission \<noteq> Some ADMIN then Inl (Forbidden ''Invalid admin'') else Inr ())
      else
        (let userPermission = at (intersection perms [USER]) 0
         in if userPermission \<noteq> Some USER then Inl (Forbidden ''Invalid user'')
            else Inr ()))"

text \<open>
  The body of the \<^verbatim>\<open>try\<close> block of \<^verbatim>\<open>beforeAuthenticate\<close> for a method other
  than signup, in two parts. \<^verbatim>\<open>resolveLogin\<close> is the part up to the signature check:
  it yields the wallet's owner and the request body with \<^verbatim>\<open>publicAddress\<close> cut at the
  first \<^verbatim>\<open>/\<close> (lodash's \<^verbatim>\<open>assign\<close> writes it into the body).
  \<^verbatim>\<open>validateAccount\<close> is imported from a module that is not among the sources and is a
  parameter. \<^verbatim>\<open>walletKey\<close> is \<^verbatim>\<open>nearAccount ?? publicAddress\<close>.
\<close>

definition primaryAddress :: "Credential \<Rightarrow> string" where
  "primaryAddress credential =
     (case at (split (c_publicAddress credential) ''/'') 0 of Some a \<Rightarrow> a | None \<Rightarrow> [])"

definition walletKey :: "Credential \<Rightarrow> string" where
  "walletKey credential =
     (case at (split (c_publicAddress credential) ''/'') 1 of
        Some nearAccount \<Rightarrow> nearAccount
      | None \<Rightarrow> primaryAddress credential)"

definition resolveLogin ::
  "(Credential \<Rightarrow> bool) \<Rightarrow> Store \<Rightarrow> Credential \<Rightarrow> HttpError + (User \<times> Credential)"
where
  "resolveLogin validateAccount st credential =
     (let nonce = c_nonce credential;
          walletType = c_walletType credential;
          networkType = c_networkType credential
      in if nonce = Some 0 \<or> nonce = None then Inl (Error ''Invalid nonce!'')
         else if \<not> network_exists (networks st) networkType then
           Inl (UnprocessableEntity ''Network not exists'')
         else
           (case findWalletUser st (walletKey credential) walletType of
              None \<Rightarrow> Inl (Error ''Wallet address not exists!'')
            | Some user \<Rightarrow>
                if Some (u_nonce user) \<noteq> nonce then Inl (Error ''Invalid nonce!'')
                else if \<not> validateAccount
                             (credential\<lparr>c_publicAddress := primaryAddress credential\<rparr>)
                then Inl (Error ''Failed to verified!'')
                else Inr (user, credential\<lparr>c_publicAddress := primaryAddress credential\<rparr>)))"

definition userProfile :: "User \<Rightarrow> UserProfile" where
  "userProfile user =
     \<lparr>p_securityId = u_id user, p_id = u_id user, p_name = u_name user,
      p_username = u_username user, p_createdAt = u_createdAt user,
      p_permissions = u_permissions user\<rparr>"

definition verifyLogin ::
  "MethodType \<Rightarrow> (Credential \<Rightarrow> bool) \<Rightarrow> Store \<Rightarrow> Credential \<Rightarrow> HttpError + Credential"
where
  "verifyLogin methodName validateAccount st credential =
     (case resolveLogin validateAccount st credential of
        Inl e \<Rightarrow> Inl e
      | Inr (user, credential') \<Rightarrow>
          (case checkPermission methodName (u_permissions user) of
             Inl e \<Rightarrow> Inl e
           | Inr _ \<Rightarrow> Inr (credential'\<lparr>c_data := Some (userProfile user)\<rparr>)))"

text \<open>
  \<^verbatim>\<open>beforeAuthenticate\<close> for a login method: whatever the \<^verbatim>\<open>try\<close> block
  throws is caught and thrown again as \<^verbatim>\<open>HttpErrors.Unauthorized(err.message)\<close>.
\<close>

definition beforeAuthenticate_login ::
  "MethodType \<Rightarrow> (Credential \<Rightarrow> bool) \<Rightarrow> Store \<Rightarrow> Credential \<Rightarrow> HttpError + Credential"
where
  "beforeAuthenticate_login methodName validateAccount st credential =
     (case verifyLogin methodName validateAccount st credential of
        Inl err \<Rightarrow> Inl (Unauthorized (message err))
      | Inr credential' \<Rightarrow> Inr credential')"

text \<open>
  \<^verbatim>\<open>beforeAuthenticate\<close> for \<^verbatim>\<open>MethodType.SIGNUP\<close>: the checks, then the two
  arguments handed to the controller (the body with \<^verbatim>\<open>name\<close> cut to 22 characters,
  and the new primary wallet, which has no owner yet).
\<close>

definition beforeAuthenticate_signup ::
  "Store \<Rightarrow> UserWallet \<Rightarrow> HttpError + (UserWallet \<times> Wallet)"
where
  "beforeAuthenticate_signup st uw =
     (if wallet_exists (wallets st) (uw_address uw) then
        Inl (UnprocessableEntity ''Wallet address already exists'')
      else if \<not> network_exists (networks st) (uw_network uw) then
        Inl (UnprocessableEntity ''Network not exists'')
      else if list_ex (\<lambda>u. u_username u = uw_username uw) (users st) then
        Inl (UnprocessableEntity ''User already exists'')
      else
        (case validateWalletAddress (networks st) (uw_address uw) of
           Inl e \<Rightarrow> Inl e
         | Inr _ \<Rightarrow>
             (case validateUsername (uw_username uw) of
                Inl e \<Rightarrow> Inl e
              | Inr _ \<Rightarrow>
                  Inr (uw\<lparr>uw_name := take 22 (uw_name uw)\<rparr>,
                       \<lparr>w_id = uw_address uw, w_type = uw_type uw,
                        w_network = uw_network uw, w_primary = True,
                        w_userId = None\<rparr>))))"

text \<open>
  \<^verbatim>\<open>walletRepository.updateAll({primary: b}, where)\<close>: every wallet that satisfies
  the \<^verbatim>\<open>where\<close> clause gets \<^verbatim>\<open>primary = b\<close>.
\<close>

definition updateAll_primary :: "bool \<Rightarrow> (Wallet \<Rightarrow> bool) \<Rightarrow> Wallet list \<Rightarrow> Wallet list" where
  "updateAll_primary b wh ws = map (\<lambda>w. if wh w then w\<lparr>w_primary := b\<rparr> else w) ws"

definition updateById_nonce :: "string \<Rightarrow> int \<Rightarrow> User list \<Rightarrow> User list" where
  "updateById_nonce k n us = map (\<lambda>u. if u_id u = k then u\<lparr>u_nonce := n\<rparr> else u) us"

text \<open>
  \<^verbatim>\<open>afterAuthenticate\<close> starts its repository updates inside
  \<^verbatim>\<open>Promise.allSettled\<close> and does not await them: when it returns, none of them has
  reached the store, and one that fails is dropped without a trace. An update that has been
  started is a value; \<^verbatim>\<open>apply_update\<close> is what it does to the store when it lands.
  The two \<^verbatim>\<open>where\<close> clauses of the wallet updates are \<^verbatim>\<open>{userId: id}\<close> and
  \<^verbatim>\<open>{type: walletType}\<close>.
\<close>

datatype WalletWhere = WhereUserId string | WhereType string

datatype Update = UserUpdateNonce string int | WalletUpdateAll bool WalletWhere

fun wallet_where :: "WalletWhere \<Rightarrow> Wallet \<Rightarrow> bool" where
  "wallet_where (WhereUserId k) w = (w_userId w = Some k)"
| "wallet_where (WhereType ty) w = (w_type w = ty)"

fun apply_update :: "Update \<Rightarrow> Store \<Rightarrow> Store" where
  "apply_update (UserUpdateNonce k n) st = st\<lparr>users := updateById_nonce k n (users st)\<rparr>"
| "apply_update (WalletUpdateAll b wh) st =
     st\<lparr>wallets := updateAll_primary b (wallet_where wh) (wallets st)\<rparr>"

text \<open>
  The store after the updates \<^verbatim>\<open>landed\<close> have reached it, in that order. Which of the
  started updates land, when and in which order is not decided by the program.
\<close>

fun land :: "Update list \<Rightarrow> Store \<Rightarrow> Store" where
  "land [] st = st"
| "land (upd # rest) st = land rest (apply_update upd st)"

text \<open>
  \<^verbatim>\<open>afterAuthenticate\<close> for a login method: the updates it starts, in the order of
  the array. \<^verbatim>\<open>newNonce\<close> is what \<^verbatim>\<open>NonceGenerator.generate()\<close> returned. The
  currency service is outside the store. Destructuring \<^verbatim>\<open>data\<close> throws when
  \<^verbatim>\<open>beforeAuthenticate\<close> has not set it.
\<close>

definition afterAuthenticate_login :: "int \<Rightarrow> Credential \<Rightarrow> HttpError + Update list" where
  "afterAuthenticate_login newNonce credential =
     (case c_data credential of
        None \<Rightarrow> Inl (TypeError ''id'')
      | Some d \<Rightarrow>
          (let ident = p_id d; walletType = c_walletType credential
           in Inr [UserUpdateNonce ident newNonce,
                   WalletUpdateAll False (WhereUserId ident),
                   WalletUpdateAll True (WhereType walletType)]))"

text \<open>
  What the controller method returns: \<^verbatim>\<open>intercept\<close> only reads its
  \<^verbatim>\<open>nonce\<close> property.
\<close>

record AnyObject =
  o_nonce :: "int option"
  o_body :: string

text \<open>
  \<^verbatim>\<open>intercept\<close> for a login method: its result, and the updates it has started and
  left running. \<^verbatim>\<open>next\<close> is the intercepted controller method, a parameter. The
  store is read, not written: it changes when the started updates land.
\<close>

definition intercept_login ::
  "MethodType \<Rightarrow> (Credential \<Rightarrow> bool) \<Rightarrow> (Credential \<Rightarrow> HttpError + AnyObject) \<Rightarrow> int \<Rightarrow>
   Store \<Rightarrow> Credential \<Rightarrow> (HttpError + AnyObject) \<times> Update list"
where
  "intercept_login methodName validateAccount next newNonce st credential =
     (case beforeAuthenticate_login methodName validateAccount st credential of
        Inl e \<Rightarrow> (Inl e, [])
      | Inr credential' \<Rightarrow>
          (case next credential' of
             Inl e \<Rightarrow> (Inl e, [])
           | Inr result \<Rightarrow>
               (case afterAuthenticate_login newNonce credential' of
                  Inl e \<Rightarrow> (Inl e, [])
                | Inr started \<Rightarrow>
                    (if o_nonce result \<noteq> None \<and> o_nonce result \<noteq> Some 0
                     then (Inr \<lparr>o_nonce = o_nonce result, o_body = []\<rparr>, started)
                     else (Inr result, started)))))"

text \<open>
  The invariant of the data model: no user owns two primary wallets. It is checked for the
  owner of every wallet of the store.
\<close>

definition primary_count :: "Wallet list \<Rightarrow> string \<Rightarrow> nat" where
  "primary_count ws uid = length (filter (\<lambda>w. w_userId w = Some uid \<and> w_primary w) ws)"

definition at_most_one_primary :: "Wallet list \<Rightarrow> bool" where
  "at_most_one_primary ws =
     list_all (\<lambda>w. case w_userId w of None \<Rightarrow> True | Some uid \<Rightarrow> primary_count ws uid \<le> 1) ws"

section \<open>Authentication interceptor: a sequence of logins\<close>

text \<open>
  The same request body sent \<^verbatim>\<open>k\<close> times in a row through \<^verbatim>\<open>intercept\<close>, where
  all the updates that a request starts land, in the order in which they were started,
  before the next request: the results in order, and the store at the end.
\<close>

fun login_attempts ::
  "MethodType \<Rightarrow> (Credential \<Rightarrow> bool) \<Rightarrow> (Credential \<Rightarrow> HttpError + AnyObject) \<Rightarrow> int \<Rightarrow>
   nat \<Rightarrow> Store \<Rightarrow> Credential \<Rightarrow> (HttpError + AnyObject) list \<times> Store"
where
  "login_attempts methodName validateAccount next newNonce 0 st credential = ([], st)"
| "login_attempts methodName validateAccount next newNonce (Suc k) st credential =
     (case intercept_login methodName validateAccount next newNonce st credential of
        (r, started) \<Rightarrow>
          (case login_attempts methodName validateAccount next newNonce k (land started st)
                  credential of
             (rs, st2) \<Rightarrow> (r # rs, st2)))"

section \<open>Authentication interceptor: concrete stores\<close>

definition accept_signature :: "Credential \<Rightarrow> bool" where
  "accept_signature credential = True"

definition issue_token :: "Credential \<Rightarrow> HttpError + AnyObject" where
  "issue_token credential = Inr \<lparr>o_nonce = None, o_body = ''accessToken''\<rparr>"

definition myriad_network :: Network where
  "myriad_network = \<lparr>n_id = OtherNetwork ''myriad'', n_rpcURL = ''wss://rpc.myriad.social''\<rparr>"

definition near_mainnet :: Network where
  "near_mainnet = \<lparr>n_id = NEAR, n_rpcURL = ''https://rpc.mainnet.near.org''\<rparr>"

definition alice :: User where
  "alice = \<lparr>u_id = ''u1'', u_name = ''Alice'', u_username = ''alice'',
            u_createdAt = ''2022-01-01'', u_nonce = 7, u_permissions = [USER]\<rparr>"

definition bob :: User where
  "bob = \<lparr>u_id = ''u2'', u_name = ''Bob'', u_username = ''bob'',
          u_createdAt = ''2022-01-02'', u_nonce = 11, u_permissions = [ADMIN, USER]\<rparr>"

definition alice_wallet :: Wallet where
  "alice_wallet = \<lparr>w_id = ''0xa1'', w_type = ''polkadot'', w_network = OtherNetwork ''myriad'',
                   w_primary = True, w_userId = Some ''u1''\<rparr>"

definition bob_wallet :: Wallet where
  "bob_wallet = \<lparr>w_id = ''0xb1'', w_type = ''polkadot'', w_network = OtherNetwork ''myriad'',
                 w_primary = False, w_userId = Some ''u2''\<rparr>"

definition bob_near_wallet :: Wallet where
  "bob_near_wallet = \<lparr>w_id = ''bob.near'', w_type = ''near'', w_network = NEAR,
                      w_primary = True, w_userId = Some ''u2''\<rparr>"

definition two_users :: Store where
  "two_users = \<lparr>users = [alice, bob],
                wallets = [alice_wallet, bob_wallet, bob_near_wallet],
                networks = [myriad_network, near_mainnet]\<rparr>"

definition alice_login :: Credential where
  "alice_login = \<lparr>c_nonce = Some 7, c_publicAddress = ''0xa1'', c_signature = ''0x5161'',
                  c_walletType = ''polkadot'', c_networkType = OtherNetwork ''myriad'',
                  c_data = None\<rparr>"

definition bob_login :: Credential where
  "bob_login = \<lparr>c_nonce = Some 11, c_publicAddress = ''0xb1'', c_signature = ''0x5162'',
                c_walletType = ''polkadot'', c_networkType = OtherNetwork ''myriad'',
                c_data = None\<rparr>"

section \<open>Credential controller: data\<close>

text \<open>
  The models and the service clients are imported by the controller from modules that are
  not among the sources. Records created by a repository get their id from the counter
  \<^verbatim>\<open>next_id\<close> of the world, which stands for the database's id generator.
\<close>

record People =
  pe_id :: nat
  pe_username :: string
  pe_platform_account_id :: string
  pe_platform :: string
  pe_profile_image_url :: "string option"

record UserCredential =
  uc_id :: nat
  uc_userId :: string
  uc_peopleId :: nat
  uc_isLogin :: bool

record Post =
  po_id :: string
  po_peopleId :: "nat option"
  po_walletAddress :: string
  po_platformUser :: "string option"

text \<open>
  \<^verbatim>\<open>po_platformUser\<close> is \<^verbatim>\<open>post.platformUser.platform_account_id\<close>, absent when the
  post has no \<^verbatim>\<open>platformUser\<close>. The local interface \<^verbatim>\<open>User\<close> of the controller:
\<close>

record SocialUser =
  su_id :: string
  su_username :: string
  su_platform :: string
  su_profile_image_url :: "string option"

text \<open>
  The chain client. \<^verbatim>\<open>api_connects\<close>: whether \<^verbatim>\<open>polkadotApi()\<close> resolves.
  \<^verbatim>\<open>addFromUri\<close>: the address of the key pair that \<^verbatim>\<open>keyring.addFromUri\<close> derives.
  \<^verbatim>\<open>account_free\<close>: the value of \<^verbatim>\<open>balance.free.toNumber()\<close> after
  \<^verbatim>\<open>api.query.system.account(address)\<close>, \<^verbatim>\<open>None\<close> when the query or the conversion
  throws. \<^verbatim>\<open>signAndSend_ok from to amount\<close>: whether building and sending the transfer
  resolves (otherwise it throws). The answers of the chain are functions of the
  arguments of the call only; deriving a key pair and disconnecting do not throw. What a
  sweep does on the chain is recorded as a list of events.
\<close>

record ChainClient =
  api_connects :: bool
  addFromUri :: "string \<Rightarrow> string"
  account_free :: "string \<Rightarrow> nat option"
  signAndSend_ok :: "string \<Rightarrow> string \<Rightarrow> int \<Rightarrow> bool"

datatype ChainEvent =
    Connect
  | QueryAccount string
  | TransferSubmit string string int
  | Disconnect

record TwitterUser =
  tu_id :: string
  tu_username :: string
  tu_profile_image_url :: "string option"

record RedditUser =
  ru_id :: string
  ru_name :: string
  ru_icon_img :: "string option"

text \<open>
  The read clients, each a function of the request path given to \<^verbatim>\<open>getActions\<close>, with
  the \<^verbatim>\<open>data\<close> of the response as result (for tweets and reddit children: the texts
  and titles, latest first). \<^verbatim>\<open>regexp\<close> is the regular-expression engine behind
  \<^verbatim>\<open>String.prototype.search\<close> for a pattern with special characters.
\<close>

record Services =
  twitter_user :: "string \<Rightarrow> HttpError + TwitterUser option"
  twitter_tweets :: "string \<Rightarrow> HttpError + string list"
  reddit_about :: "string \<Rightarrow> HttpError + RedditUser"
  reddit_children :: "string \<Rightarrow> HttpError + string list"
  facebook_posts :: "string \<Rightarrow> HttpError + string"
  regexp :: "string \<Rightarrow> string \<Rightarrow> HttpError + nat option"
  chain :: ChainClient

record World =
  people :: "People list"
  credentials :: "UserCredential list"
  posts :: "Post list"
  next_id :: nat
  chain_log :: "ChainEvent list"

section \<open>Credential controller: fund sweeps\<close>

definition gasFee :: int where
  "gasFee = 125000147"

text \<open>
  The \<^verbatim>\<open>for\<close> loop of \<^verbatim>\<open>transferEscorwToUser\<close> and of
  \<^verbatim>\<open>transferTipsToUser\<close> (the two loops have the same body, up to a
  \<^verbatim>\<open>console.log\<close>). The events so far are the accumulator; an exception ends the loop
  with the events up to it.
\<close>

fun transfer_loop ::
  "ChainClient \<Rightarrow> string \<Rightarrow> Post list \<Rightarrow> ChainEvent list \<Rightarrow> (HttpError + unit) \<times> ChainEvent list"
where
  "transfer_loop ch to [] evs = (Inr (), evs)"
| "transfer_loop ch to (post # rest) evs =
     (let from = addFromUri ch (''//'' @ po_id post)
      in case account_free ch from of
           None \<Rightarrow> (Inl (ChainError ''account query failed''), evs @ [QueryAccount from])
         | Some free \<Rightarrow>
             if free \<noteq> 0 then
               (if signAndSend_ok ch from to (int free - gasFee)
                then transfer_loop ch to rest
                       (evs @ [QueryAccount from, TransferSubmit from to (int free - gasFee)])
                else (Inl (ChainError ''transfer failed''),
                      evs @ [QueryAccount from, TransferSubmit from to (int free - gasFee)]))
             else transfer_loop ch to rest (evs @ [QueryAccount from]))"

text \<open>What follows the selection of the posts in both functions.\<close>

definition sweep :: "ChainClient \<Rightarrow> string \<Rightarrow> Post list \<Rightarrow> (HttpError + unit) \<times> ChainEvent list" where
  "sweep ch to selected =
     (if \<not> api_connects ch then (Inl (ChainError ''connection failed''), [])
      else
        (case transfer_loop ch to selected [Connect] of
           (Inl e, evs) \<Rightarrow> (Inl e, evs)
         | (Inr _, evs) \<Rightarrow> (Inr (), evs @ [Disconnect])))"

definition transferEscorwToUser ::
  "ChainClient \<Rightarrow> Post list \<Rightarrow> nat \<Rightarrow> string \<Rightarrow> (HttpError + unit) \<times> ChainEvent list"
where
  "transferEscorwToUser ch ps peopleId userId =
     sweep ch userId
       (filter (\<lambda>post. po_peopleId post = Some peopleId \<and> po_walletAddress post \<noteq> userId) ps)"

definition transferTipsToUser ::
  "ChainClient \<Rightarrow> Post list \<Rightarrow> string \<Rightarrow> string \<Rightarrow> (HttpError + unit) \<times> ChainEvent list"
where
  "transferTipsToUser ch ps publicKey platformAccountId =
     sweep ch publicKey
       (filter (\<lambda>post. po_platformUser post = Some platformAccountId)
          (filter (\<lambda>post. po_walletAddress post \<noteq> publicKey) ps))"

text \<open>Which events of a log are submitted transfers.\<close>

fun is_transfer :: "ChainEvent \<Rightarrow> bool" where
  "is_transfer (TransferSubmit from to amount) = True"
| "is_transfer e = False"

section \<open>Credential controller: linking a persona\<close>

text \<open>The first loop of \<^verbatim>\<open>createCredential\<close>, over the wallet's credentials.\<close>

fun claimed_platform :: "People list \<Rightarrow> string \<Rightarrow> UserCredential list \<Rightarrow> HttpError option" where
  "claimed_platform ppl platform [] = None"
| "claimed_platform ppl platform (c # cs) =
     (case find (\<lambda>person. pe_id person = uc_peopleId c) ppl of
        None \<Rightarrow> claimed_platform ppl platform cs
      | Some person \<Rightarrow>
          if pe_platform person = platform
          then Some (UnprocessableEntity
                 (''This '' @ pe_platform person @ '' does not belong to you!''))
          else claimed_platform ppl platform cs)"

definition createCredential :: "World \<Rightarrow> SocialUser \<Rightarrow> string \<Rightarrow> HttpError + World" where
  "createCredential w user publicKey =
     (let creds = filter (\<lambda>c. uc_userId c = publicKey) (credentials w)
      in case claimed_platform (people w) (su_platform user) creds of
           Some e \<Rightarrow> Inl e
         | None \<Rightarrow>
             (case find (\<lambda>person. pe_platform_account_id person = su_id user \<and>
                                  pe_platform person = su_platform user) (people w) of
                Some foundPeople \<Rightarrow>
                  (case find (\<lambda>c. uc_peopleId c = pe_id foundPeople) creds of
                     None \<Rightarrow>
                       Inr (w\<lparr>credentials := credentials w @
                                 [\<lparr>uc_id = next_id w, uc_userId = publicKey,
                                   uc_peopleId = pe_id foundPeople, uc_isLogin = True\<rparr>],
                              next_id := Suc (next_id w)\<rparr>)
                   | Some foundCredential \<Rightarrow>
                       Inr (w\<lparr>credentials :=
                                 map (\<lambda>c. if uc_id c = uc_id foundCredential
                                           then c\<lparr>uc_isLogin := True\<rparr> else c)
                                   (credentials w)\<rparr>))
              | None \<Rightarrow>
                  Inr (w\<lparr>people := people w @
                            [\<lparr>pe_id = next_id w, pe_username = su_username user,
                              pe_platform_account_id = su_id user,
                              pe_platform = su_platform user,
                              pe_profile_image_url = su_profile_image_url user\<rparr>],
                         credentials := credentials w @
                            [\<lparr>uc_id = Suc (next_id w), uc_userId = publicKey,
                              uc_peopleId = next_id w, uc_isLogin = True\<rparr>],
                         next_id := Suc (Suc (next_id w))\<rparr>)))"

section \<open>Credential controller: the two verification modes\<close>

text \<open>
  \<^verbatim>\<open>text.search(pattern)\<close> turns a string pattern into a regular expression. A
  pattern without special characters matches as a substring; any other pattern is left to
  the engine.
\<close>

definition regexp_special :: "char \<Rightarrow> bool" where
  "regexp_special c =
     List.member
       [CHR 0x5C, CHR ''^'', CHR ''$'', CHR ''.'', CHR ''|'', CHR ''?'', CHR ''*'', CHR ''+'',
        CHR ''('', CHR '')'', CHR ''['', CHR '']'', CHR ''{'', CHR ''}''] c"

definition search ::
  "(string \<Rightarrow> string \<Rightarrow> HttpError + nat option) \<Rightarrow> string \<Rightarrow> string \<Rightarrow> HttpError + nat option"
where
  "search re s p = (if list_ex regexp_special p then re s p else Inr (indexOf s p))"

text \<open>
  The end of both branches of \<^verbatim>\<open>verifyUser\<close>: \<^verbatim>\<open>createCredential\<close>, then
  \<^verbatim>\<open>transferTipsToUser\<close>, then \<^verbatim>\<open>return true\<close>.
\<close>

definition link_and_transfer ::
  "Services \<Rightarrow> World \<Rightarrow> SocialUser \<Rightarrow> string \<Rightarrow> string \<Rightarrow> (HttpError + bool) \<times> World"
where
  "link_and_transfer env w user publicKey accountId =
     (case createCredential w user publicKey of
        Inl e \<Rightarrow> (Inl e, w)
      | Inr w' \<Rightarrow>
          (case transferTipsToUser (chain env) (posts w') publicKey accountId of
             (Inl e, evs) \<Rightarrow> (Inl e, w'\<lparr>chain_log := chain_log w' @ evs\<rparr>)
           | (Inr _, evs) \<Rightarrow> (Inr True, w'\<lparr>chain_log := chain_log w' @ evs\<rparr>)))"

definition verifyUser ::
  "Services \<Rightarrow> World \<Rightarrow> string \<Rightarrow> string \<Rightarrow> string \<Rightarrow> (HttpError + bool) \<times> World"
where
  "verifyUser env w publicKey username platform =
     (if platform = ''twitter'' then
        (case twitter_user env
                (''users/by/username/'' @ username @ ''?user.fields=profile_image_url'') of
           Inl e \<Rightarrow> (Inl e, w)
         | Inr None \<Rightarrow> (Inl (NotFound ''Invalid username''), w)
         | Inr (Some user) \<Rightarrow>
             (case twitter_tweets env (''users/'' @ tu_id user @ ''/tweets?max_results=5'') of
                Inl e \<Rightarrow> (Inl e, w)
              | Inr [] \<Rightarrow> (Inl (TypeError ''text''), w)
              | Inr (text # _) \<Rightarrow>
                  (case search (regexp env) text publicKey of
                     Inl e \<Rightarrow> (Inl e, w)
                   | Inr None \<Rightarrow> (Inl (NotFound ''Cannot find specified post''), w)
                   | Inr (Some _) \<Rightarrow>
                       link_and_transfer env w
                         \<lparr>su_id = tu_id user, su_username = tu_username user,
                          su_platform = platform,
                          su_profile_image_url =
                            Some (case tu_profile_image_url user of
                                    None \<Rightarrow> []
                                  | Some url \<Rightarrow> replace_first url ''normal'' ''400x400'')\<rparr>
                         publicKey (tu_id user))))
      else if platform = ''reddit'' then
        (case reddit_about env (''user/'' @ username @ ''/about.json'') of
           Inl e \<Rightarrow> (Inl e, w)
         | Inr redditUser \<Rightarrow>
             (case reddit_children env (''user/'' @ username @ ''/.json?limit=1'') of
                Inl e \<Rightarrow> (Inl e, w)
              | Inr [] \<Rightarrow> (Inl (NotFound ''Cannot find the spesified post''), w)
              | Inr (title # _) \<Rightarrow>
                  (case search (regexp env) title publicKey of
                     Inl e \<Rightarrow> (Inl e, w)
                   | Inr None \<Rightarrow> (Inl (NotFound ''Cannot find specified post''), w)
                   | Inr (Some _) \<Rightarrow>
                       link_and_transfer env w
                         \<lparr>su_id = ''t2_'' @ ru_id redditUser, su_username = ru_name redditUser,
                          su_platform = ''reddit'',
                          su_profile_image_url =
                            Some (case ru_icon_img redditUser of
                                    None \<Rightarrow> []
                                  | Some img \<Rightarrow> first_piece img ''?'')\<rparr>
                         publicKey (''t2_'' @ ru_id redditUser))))
      else (Inl (NotFound ''Platform does not exist''), w))"

text \<open>
  The end of the three branches of \<^verbatim>\<open>verify\<close>: the key read from the post
  (\<^verbatim>\<open>None\<close> for \<^verbatim>\<open>undefined\<close> and \<^verbatim>\<open>null\<close>) is compared with
  \<^verbatim>\<open>userId\<close>; equal, the escrow is transferred; different, the credential is deleted.
\<close>

definition confirm_or_revoke ::
  "Services \<Rightarrow> World \<Rightarrow> UserCredential \<Rightarrow> string \<Rightarrow> nat \<Rightarrow> string option \<Rightarrow>
   (HttpError + bool) \<times> World"
where
  "confirm_or_revoke env w foundCredential userId peopleId key =
     (if key = Some userId then
        (case transferEscorwToUser (chain env) (posts w) peopleId userId of
           (Inl e, evs) \<Rightarrow> (Inl e, w\<lparr>chain_log := chain_log w @ evs\<rparr>)
         | (Inr _, evs) \<Rightarrow> (Inr True, w\<lparr>chain_log := chain_log w @ evs\<rparr>))
      else
        (Inr False,
         w\<lparr>credentials :=
              filter (\<lambda>c. uc_id c \<noteq> uc_id foundCredential) (credentials w)\<rparr>))"

definition facebook_phrase :: string where
  "facebook_phrase = ''Saying hi to #MyriadNetwork Public Key: ''"

text \<open>The body of the \<^verbatim>\<open>try\<close> block of \<^verbatim>\<open>verify\<close>.\<close>

definition verify_body ::
  "Services \<Rightarrow> World \<Rightarrow> string \<Rightarrow> nat \<Rightarrow> (HttpError + bool) \<times> World"
where
  "verify_body env w userId peopleId =
     (case find (\<lambda>person. pe_id person = peopleId) (people w) of
        None \<Rightarrow> (Inr False, w)
      | Some foundPeople \<Rightarrow>
          (case find (\<lambda>c. uc_userId c = userId \<and> uc_peopleId c = peopleId) (credentials w) of
             None \<Rightarrow> (Inr False, w)
           | Some foundCredential \<Rightarrow>
               if pe_platform foundPeople = ''twitter'' then
                 (case twitter_tweets env
                         (''users/'' @ pe_platform_account_id foundPeople @
                          ''}/tweets?max_results=5'') of
                    Inl e \<Rightarrow> (Inl e, w)
                  | Inr [] \<Rightarrow> (Inl (TypeError ''text''), w)
                  | Inr (text # _) \<Rightarrow>
                      confirm_or_revoke env w foundCredential userId peopleId
                        (at (split (replace_all_char (CHR 0x0A) text) '' '') 7))
               else if pe_platform foundPeople = ''reddit'' then
                 (case reddit_children env
                         (''u/'' @ pe_username foundPeople @ ''.json?limit=1'') of
                    Inl e \<Rightarrow> (Inl e, w)
                  | Inr [] \<Rightarrow> (Inl (TypeError ''data''), w)
                  | Inr (title # _) \<Rightarrow>
                      confirm_or_revoke env w foundCredential userId peopleId
                        (at (split (replace_all_char (CHR ''n'') title) '' '') 7))
               else if pe_platform foundPeople = ''facebook'' then
                 (case facebook_posts env (pe_platform_account_id foundPeople) of
                    Inl e \<Rightarrow> (Inl e, w)
                  | Inr facebookPosts \<Rightarrow>
                      (case search (regexp env) facebookPosts facebook_phrase of
                         Inl e \<Rightarrow> (Inl e, w)
                       | Inr indexFBPublicKey \<Rightarrow>
                           confirm_or_revoke env w foundCredential userId peopleId
                             (case indexFBPublicKey of
                                None \<Rightarrow> None
                              | Some i \<Rightarrow>
                                  Some (substring facebookPosts
                                          (i + length facebook_phrase)
                                          (i + length facebook_phrase + 49)))))
               else (Inr False, w)))"

text \<open>\<^verbatim>\<open>verify\<close>: the \<^verbatim>\<open>catch\<close> turns every exception into \<^verbatim>\<open>false\<close>.\<close>

definition verify :: "Services \<Rightarrow> World \<Rightarrow> string \<Rightarrow> nat \<Rightarrow> bool \<times> World" where
  "verify env w userId peopleId =
     (case verify_body env w userId peopleId of
        (Inl err, w') \<Rightarrow> (False, w')
      | (Inr b, w') \<Rightarrow> (b, w'))"

section \<open>Credential controller: concrete worlds\<close>

definition derive_address :: "string \<Rightarrow> string" where
  "derive_address uri = ''addr:'' @ uri"

definition balance_table :: "string \<Rightarrow> nat option" where
  "balance_table address =
     (if address = ''addr://p1'' then Some 500000000
      else if address = ''addr://p3'' then Some 300000000
      else if address = ''addr://p4'' then Some 700000000
      else Some 0)"

definition sends_all :: "string \<Rightarrow> string \<Rightarrow> int \<Rightarrow> bool" where
  "sends_all from to amount = True"

definition sends_all_but_p1 :: "string \<Rightarrow> string \<Rightarrow> int \<Rightarrow> bool" where
  "sends_all_but_p1 from to amount = (from \<noteq> ''addr://p1'')"

definition good_chain :: ChainClient where
  "good_chain = \<lparr>api_connects = True, addFromUri = derive_address,
                  account_free = balance_table, signAndSend_ok = sends_all\<rparr>"

definition p1_failing_chain :: ChainClient where
  "p1_failing_chain = \<lparr>api_connects = True, addFromUri = derive_address,
                        account_free = balance_table, signAndSend_ok = sends_all_but_p1\<rparr>"

definition balance_table_without_p2 :: "string \<Rightarrow> nat option" where
  "balance_table_without_p2 address =
     (if address = ''addr://p2'' then None else balance_table address)"

definition p2_failing_chain :: ChainClient where
  "p2_failing_chain = \<lparr>api_connects = True, addFromUri = derive_address,
                        account_free = balance_table_without_p2, signAndSend_ok = sends_all\<rparr>"

definition post1 :: Post where
  "post1 = \<lparr>po_id = ''p1'', po_peopleId = Some 0, po_walletAddress = ''escrow1'',
            po_platformUser = Some ''tw-1''\<rparr>"

definition post2 :: Post where
  "post2 = \<lparr>po_id = ''p2'', po_peopleId = Some 0, po_walletAddress = ''escrow2'',
            po_platformUser = Some ''tw-1''\<rparr>"

definition post3 :: Post where
  "post3 = \<lparr>po_id = ''p3'', po_peopleId = Some 0, po_walletAddress = ''escrow3'',
            po_platformUser = Some ''tw-1''\<rparr>"

definition post4 :: Post where
  "post4 = \<lparr>po_id = ''p4'', po_peopleId = Some 1, po_walletAddress = ''escrow4'',
            po_platformUser = Some ''tw-2''\<rparr>"

definition post5 :: Post where
  "post5 = \<lparr>po_id = ''p5'', po_peopleId = Some 0, po_walletAddress = ''5Alice'',
            po_platformUser = Some ''tw-1''\<rparr>"

definition demo_posts :: "Post list" where
  "demo_posts = [post1, post2, post3, post4, post5]"

definition alice_lookup :: "string \<Rightarrow> HttpError + TwitterUser option" where
  "alice_lookup path =
     Inr (Some \<lparr>tu_id = ''tw-1'', tu_username = ''alice'',
                tu_profile_image_url = Some ''https://img.example/a_normal.jpg''\<rparr>)"

definition tweets_key_second :: "string \<Rightarrow> HttpError + string list" where
  "tweets_key_second path = Inr [''good morning'', ''my key 5Alice'']"

definition tweets_key_first :: "string \<Rightarrow> HttpError + string list" where
  "tweets_key_first path = Inr [''my key 5Alice'', ''good morning'']"

definition reddit_alice :: "string \<Rightarrow> HttpError + RedditUser" where
  "reddit_alice path = Inr \<lparr>ru_id = ''r1'', ru_name = ''alice'', ru_icon_img = None\<rparr>"

definition reddit_titles :: "string \<Rightarrow> HttpError + string list" where
  "reddit_titles path = Inr [''my key 5Alice'']"

definition facebook_canned :: "string \<Rightarrow> HttpError + string" where
  "facebook_canned accountId = Inr ''Saying hi to #MyriadNetwork Public Key: 5Alice''"

definition facebook_eighth_word :: "string \<Rightarrow> HttpError + string" where
  "facebook_eighth_word accountId = Inr ''I am saying hi to Myriad, key: 5Alice''"

definition no_regexp :: "string \<Rightarrow> string \<Rightarrow> HttpError + nat option" where
  "no_regexp s p = Inl (Error ''no regular expression engine'')"

definition demo_services :: Services where
  "demo_services =
     \<lparr>twitter_user = alice_lookup, twitter_tweets = tweets_key_second,
      reddit_about = reddit_alice, reddit_children = reddit_titles,
      facebook_posts = facebook_canned, regexp = no_regexp, chain = good_chain\<rparr>"

definition key_first_services :: Services where
  "key_first_services =
     \<lparr>twitter_user = alice_lookup, twitter_tweets = tweets_key_first,
      reddit_about = reddit_alice, reddit_children = reddit_titles,
      facebook_posts = facebook_eighth_word, regexp = no_regexp, chain = good_chain\<rparr>"

definition empty_world :: World where
  "empty_world = \<lparr>people = [], credentials = [], posts = [], next_id = 0, chain_log = []\<rparr>"

definition alice_twitter :: SocialUser where
  "alice_twitter = \<lparr>su_id = ''tw-1'', su_username = ''alice'', su_platform = ''twitter'',
                    su_profile_image_url = Some ''https://img.example/a_400x400.jpg''\<rparr>"

definition linked_world :: World where
  "linked_world =
     \<lparr>people = [\<lparr>pe_id = 0, pe_username = ''alice'', pe_platform_account_id = ''tw-1'',
                  pe_platform = ''twitter'',
                  pe_profile_image_url = Some ''https://img.example/a_400x400.jpg''\<rparr>],
      credentials = [\<lparr>uc_id = 1, uc_userId = ''5Alice'', uc_peopleId = 0,
                       uc_isLogin = True\<rparr>],
      posts = [], next_id = 2, chain_log = []\<rparr>"

definition facebook_world :: World where
  "facebook_world =
     \<lparr>people = [\<lparr>pe_id = 0, pe_username = ''alice'', pe_platform_account_id = ''fb-1'',
                  pe_platform = ''facebook'', pe_profile_image_url = None\<rparr>],
      credentials = [\<lparr>uc_id = 1, uc_userId = ''5Alice'', uc_peopleId = 0,
                       uc_isLogin = True\<rparr>],
      posts = [], next_id = 2, chain_log = []\<rparr>"

definition tweets_eighth_word :: "string \<Rightarrow> HttpError + string list" where
  "tweets_eighth_word path = Inr [''I am saying hi to #MyriadNetwork key: 5Alice'']"

definition eighth_word_services :: Services where
  "eighth_word_services =
     \<lparr>twitter_user = alice_lookup, twitter_tweets = tweets_eighth_word,
      reddit_about = reddit_alice, reddit_children = reddit_titles,
      facebook_posts = facebook_canned, regexp = no_regexp, chain = good_chain\<rparr>"

section \<open>Properties: address validation\<close>

lemma validate_length_66:
  "length a = 66 \<Longrightarrow>
   validateWalletAddress ns a =
     (if startsWith a ''0x'' then Inr ()
      else Inl (UnprocessableEntity ''Invalid polkadot address''))"
  by (simp add: validateWalletAddress_def)

lemma validate_length_42:
  "length a = 42 \<Longrightarrow>
   validateWalletAddress ns a =
     (if startsWith a ''0x'' then Inr ()
      else Inl (UnprocessableEntity ''Invalid ethereum address''))"
  by (simp add: validateWalletAddress_def)

lemma validate_near_suffix:
  assumes "length a \<noteq> 66" "length a \<noteq> 42" "network_findById ns NEAR = Inr nw"
    and "\<not> endsWith a (if at (split (n_rpcURL nw) ''.'') 1 = Some ''development''
                        then ''.testnet'' else ''.near'')"
  shows "validateWalletAddress ns a = Inl (UnprocessableEntity ''Invalid near id'')"
  using assms by (simp add: validateWalletAddress_def Let_def split: if_splits)

text \<open>
  When the suffix occurs in the address only at its end, the piece that is matched is the
  address without the suffix, and the last rule of the claim holds.
\<close>

lemma indexOf_from_ge: "indexOf_from i s p = Some k \<Longrightarrow> i \<le> k"
  by (induction s arbitrary: i) (auto split: if_splits dest: Suc_leD)

lemma split_acc_first:
  "sep \<noteq> [] \<Longrightarrow> indexOf_from i s sep = Some (i + n) \<Longrightarrow>
   \<exists>rest. split_acc sep acc s = (rev acc @ take n s) # rest"
proof (induction s arbitrary: i acc n)
  case Nil
  then show ?case by simp
next
  case (Cons c cs)
  show ?case
  proof (cases "startsWith (c # cs) sep")
    case True
    with Cons.prems have "n = 0" by simp
    with True Cons.prems(1) show ?thesis by simp
  next
    case False
    with Cons.prems have f: "indexOf_from (Suc i) cs sep = Some (i + n)" by simp
    from indexOf_from_ge [OF f] obtain n' where n: "n = Suc n'" by (cases n) auto
    with f have "indexOf_from (Suc i) cs sep = Some (Suc i + n')" by simp
    from Cons.IH [OF Cons.prems(1) this, of "c # acc"] False n Cons.prems(1)
    show ?thesis by simp
  qed
qed

lemma first_piece_suffix_once:
  assumes "sep \<noteq> []" "indexOf (l @ sep) sep = Some (length l)"
  shows "first_piece (l @ sep) sep = l"
proof -
  from assms(2) have "indexOf_from 0 (l @ sep) sep = Some (0 + length l)"
    by (simp add: indexOf_def)
  from split_acc_first [OF assms(1) this, of "[]"] show ?thesis
    by (auto simp: first_piece_def split_def)
qed

lemma endsWith_append: "endsWith (l @ sep) sep"
  by (simp add: endsWith_def)

lemma validate_near_suffix_once:
  assumes "length (l @ suffix) \<noteq> 66" "length (l @ suffix) \<noteq> 42"
    and "network_findById ns NEAR = Inr nw"
    and "suffix = (if at (split (n_rpcURL nw) ''.'') 1 = Some ''development''
                   then ''.testnet'' else ''.near'')"
    and "indexOf (l @ suffix) suffix = Some (length l)"
  shows "validateWalletAddress ns (l @ suffix) =
    (if match_near_id l then Inr ()
     else Inl (UnprocessableEntity
       ''Only allowed ascii letter (a-z), number (0-9), dash(-) and underscore(_)''))"
proof -
  have ne: "suffix \<noteq> []" using assms(4) by auto
  note fp = first_piece_suffix_once [OF ne assms(5)]
  show ?thesis
  proof (cases "at (split (n_rpcURL nw) ''.'') 1 = Some ''development''")
    case True
    with assms(4) have s: "suffix = ''.testnet''" by simp
    from assms(1,2,3) True fp show ?thesis
      unfolding s validateWalletAddress_def
      using endsWith_append [of l "''.testnet''"] by (simp add: Let_def)
  next
    case False
    with assms(4) have s: "suffix = ''.near''" by simp
    from assms(1,2,3) False fp show ?thesis
      unfolding s validateWalletAddress_def
      using endsWith_append [of l "''.near''"] by (simp add: Let_def)
  qed
qed

lemma near_examples: "validateWalletAddress [near_mainnet] ''ab.near'' = Inr ()"
  "validateWalletAddress [near_mainnet] ''AB.near'' \<noteq> Inr ()"
  by (simp_all add: validateWalletAddress_def near_mainnet_def network_findById_def split_def
      startsWith_def endsWith_def first_piece_def match_near_id_def lower_or_digit_def)

text \<open>
  C5. The rules for addresses of length 66 and 42 and the required suffix of the other
  addresses are as claimed (lemmas \<open>validate_length_66\<close>, \<open>validate_length_42\<close>,
  \<open>validate_near_suffix\<close>). The last part of the claim, that the address without its
  suffix must match \<^verbatim>\<open>^[a-z0-9_-]+$\<close>, holds when the suffix occurs only at the end
  (lemma \<open>validate_near_suffix_once\<close>) but not in general: the code matches the piece
  before the first occurrence of the suffix, not the address without its final suffix. With a NEAR network whose RPC URL has the second segment
  \<^verbatim>\<open>mainnet\<close>, the address \<^verbatim>\<open>ab.near!!.near\<close> (length 14) is accepted, although it is
  \<^verbatim>\<open>ab.near!!\<close> followed by \<^verbatim>\<open>.near\<close> and \<^verbatim>\<open>ab.near!!\<close> does not match.
\<close>

theorem wallet_address_junk_before_suffix:
  "validateWalletAddress [near_mainnet] ''ab.near!!.near'' = Inr () \<and>
   ''ab.near!!.near'' = ''ab.near!!'' @ ''.near'' \<and>
   match_near_id ''ab.near!!'' = False"
  by (simp add: validateWalletAddress_def near_mainnet_def network_findById_def split_def
      startsWith_def endsWith_def first_piece_def match_near_id_def lower_or_digit_def)

section \<open>Properties: primary wallets\<close>

text \<open>
  What the two wallet updates of \<^verbatim>\<open>afterAuthenticate\<close> do when all the started
  updates land in the order in which they were started: every wallet of the submitted
  type becomes primary, whoever owns it; of the other wallets, those of the user who
  logged in stop being primary; the rest is unchanged.
\<close>

lemma afterAuthenticate_login_wallets:
  assumes "afterAuthenticate_login newNonce c = Inr started" "c_data c = Some d"
  shows "wallets (land started st) =
    map (\<lambda>w. if w_type w = c_walletType c then w\<lparr>w_primary := True\<rparr>
              else if w_userId w = Some (p_id d) then w\<lparr>w_primary := False\<rparr>
              else w) (wallets st)"
  using assms
  by (auto simp: afterAuthenticate_login_def updateAll_primary_def Let_def)

text \<open>
  C1. The claim is that a login leaves every user with at most one primary wallet and
  promotes only wallets of the user who logs in. The code's second update has the
  \<^verbatim>\<open>where\<close> clause \<^verbatim>\<open>{type: walletType}\<close> without the user. In the store
  \<^verbatim>\<open>two_users\<close> every user has one primary wallet; Alice's login with her polkadot
  wallet succeeds and starts the three updates; when they have landed, Bob's polkadot
  wallet is primary as well as his NEAR wallet, so Bob has two primary wallets. The same
  holds when the two wallet updates land in the other order, and when only the promoting
  update lands.
\<close>

theorem login_promotes_other_users_wallets:
  "at_most_one_primary (wallets two_users) \<and>
   intercept_login LOGIN accept_signature issue_token 99 two_users alice_login =
     (Inr \<lparr>o_nonce = None, o_body = ''accessToken''\<rparr>,
      [UserUpdateNonce ''u1'' 99, WalletUpdateAll False (WhereUserId ''u1''),
       WalletUpdateAll True (WhereType ''polkadot'')]) \<and>
   wallets
     (land (snd (intercept_login LOGIN accept_signature issue_token 99 two_users alice_login))
        two_users) =
     [alice_wallet, bob_wallet\<lparr>w_primary := True\<rparr>, bob_near_wallet] \<and>
   primary_count
     (wallets
       (land (snd (intercept_login LOGIN accept_signature issue_token 99 two_users alice_login))
          two_users))
     ''u2'' = 2 \<and>
   \<not> at_most_one_primary
     (wallets
       (land (snd (intercept_login LOGIN accept_signature issue_token 99 two_users alice_login))
          two_users)) \<and>
   primary_count
     (wallets
       (land [WalletUpdateAll True (WhereType ''polkadot''),
              WalletUpdateAll False (WhereUserId ''u1''), UserUpdateNonce ''u1'' 99] two_users))
     ''u2'' = 2 \<and>
   primary_count
     (wallets (land [WalletUpdateAll True (WhereType ''polkadot'')] two_users)) ''u2'' = 2"
  by (simp add: at_most_one_primary_def primary_count_def intercept_login_def
      beforeAuthenticate_login_def verifyLogin_def resolveLogin_def checkPermission_def
      intersection_def Let_def findWalletUser_def walletKey_def primaryAddress_def
      split_def startsWith_def network_exists_def afterAuthenticate_login_def
      updateAll_primary_def updateById_nonce_def userProfile_def
      two_users_def alice_def bob_def alice_wallet_def bob_wallet_def bob_near_wallet_def
      alice_login_def accept_signature_def issue_token_def myriad_network_def near_mainnet_def)

section \<open>Properties: linking a persona\<close>

text \<open>
  When the personas have distinct ids, every successful call adds a credential: the
  branch that updates \<^verbatim>\<open>isLogin\<close> of an existing credential is never taken.
\<close>

lemma find_SomeD: "find P xs = Some x \<Longrightarrow> x \<in> set xs \<and> P x"
  by (induction xs) (auto split: if_splits)

lemma claimed_platform_NoneD:
  "claimed_platform ppl pf cs = None \<Longrightarrow> c \<in> set cs \<Longrightarrow>
   find (\<lambda>person. pe_id person = uc_peopleId c) ppl = Some p \<Longrightarrow> pe_platform p \<noteq> pf"
  by (induction cs) (auto split: option.splits if_splits)

lemma update_branch_unreachable:
  assumes d: "distinct (map pe_id (people w))"
    and ok: "createCredential w u k = Inr w'"
  shows "length (credentials w') = Suc (length (credentials w))"
proof -
  let ?creds = "filter (\<lambda>c. uc_userId c = k) (credentials w)"
  from ok have cl: "claimed_platform (people w) (su_platform u) ?creds = None"
    by (auto simp: createCredential_def Let_def split: option.splits)
  show ?thesis
  proof (cases "find (\<lambda>person. pe_platform_account_id person = su_id u \<and>
                                  pe_platform person = su_platform u) (people w)")
    case None
    with ok cl show ?thesis by (auto simp: createCredential_def Let_def)
  next
    case (Some fp)
    from find_SomeD [OF Some] have fp: "fp \<in> set (people w)" "pe_platform fp = su_platform u"
      by simp_all
    show ?thesis
    proof (cases "find (\<lambda>c. uc_peopleId c = pe_id fp) ?creds")
      case None
      with ok cl Some show ?thesis by (auto simp: createCredential_def Let_def)
    next
      case (Some fc)
      from find_SomeD [OF Some] have fc: "fc \<in> set ?creds" "uc_peopleId fc = pe_id fp"
        by simp_all
      obtain q where q: "find (\<lambda>person. pe_id person = uc_peopleId fc) (people w) = Some q"
        using fp(1) fc(2) by (cases "find (\<lambda>person. pe_id person = uc_peopleId fc) (people w)")
          (auto simp: find_None_iff)
      from find_SomeD [OF q] fc(2) have "q \<in> set (people w)" "pe_id q = pe_id fp" by simp_all
      with d fp(1) have "q = fp" by (auto simp: distinct_map dest: inj_onD)
      with claimed_platform_NoneD [OF cl fc(1) q] fp(2) show ?thesis by simp
    qed
  qed
qed

text \<open>
  C4. The claim is that linking the same wallet, platform and persona again succeeds and
  updates the existing credential. In the code the first loop rejects as soon as the wallet
  has any persona on the platform, the same one included, so the second call with identical
  arguments throws and the branch that updates \<^verbatim>\<open>isLogin\<close> is not reached.
\<close>

theorem reverification_rejected:
  "createCredential empty_world alice_twitter ''5Alice'' = Inr linked_world \<and>
   createCredential linked_world alice_twitter ''5Alice'' =
     Inl (UnprocessableEntity ''This twitter does not belong to you!'')"
  by (simp add: createCredential_def empty_world_def alice_twitter_def linked_world_def)

section \<open>Properties: the capability check\<close>

lemma at_uniq_acc_filter:
  "at (uniq_acc [] (filter (\<lambda>x. x = k) perms)) 0 = (if k \<in> set perms then Some k else None)"
proof (cases "filter (\<lambda>x. x = k) perms")
  case Nil
  then have "k \<notin> set perms" by (auto simp: filter_empty_conv)
  with Nil show ?thesis by simp
next
  case (Cons x xs)
  then have "x \<in> set (filter (\<lambda>x. x = k) perms)" by simp
  then have "x = k" "k \<in> set perms" by auto
  with Cons show ?thesis by simp
qed

lemma at_intersection_single:
  "at (intersection perms [k]) 0 = (if k \<in> set perms then Some k else None)"
proof -
  have "List.member [k] = (\<lambda>x. x = k)" by (auto simp: fun_eq_iff)
  then show ?thesis using at_uniq_acc_filter [of k perms] by (simp add: intersection_def)
qed

lemma checkPermission_admin:
  "checkPermission ADMINLOGIN perms =
     (if ADMIN \<in> set perms then Inr () else Inl (Forbidden ''Invalid admin''))"
  by (simp add: checkPermission_def at_intersection_single)

lemma checkPermission_user:
  "m \<noteq> ADMINLOGIN \<Longrightarrow> checkPermission m perms =
     (if USER \<in> set perms then Inr () else Inl (Forbidden ''Invalid user''))"
  by (simp add: checkPermission_def at_intersection_single)

lemmas login_eval = intercept_login_def
  beforeAuthenticate_login_def verifyLogin_def resolveLogin_def checkPermission_def
  intersection_def Let_def findWalletUser_def walletKey_def primaryAddress_def
  split_def startsWith_def network_exists_def afterAuthenticate_login_def
  updateAll_primary_def updateById_nonce_def userProfile_def
  two_users_def alice_def bob_def alice_wallet_def bob_wallet_def bob_near_wallet_def
  alice_login_def bob_login_def accept_signature_def issue_token_def myriad_network_def
  near_mainnet_def

text \<open>
  C2, as stated: an admin login of a user whose permissions are \<^verbatim>\<open>{USER}\<close> is rejected
  with a Forbidden error. The capability check does throw \<^verbatim>\<open>Forbidden\<close>, but inside the
  \<^verbatim>\<open>try\<close> block, whose \<^verbatim>\<open>catch\<close> throws \<^verbatim>\<open>Unauthorized\<close> with the same message
  instead: for Alice, whose permissions are \<^verbatim>\<open>[USER]\<close>, the admin login ends with
  \<^verbatim>\<open>Unauthorized\<close>, not with \<^verbatim>\<open>Forbidden\<close>.
\<close>

theorem admin_login_not_forbidden:
  "checkPermission ADMINLOGIN (u_permissions alice) = Inl (Forbidden ''Invalid admin'') \<and>
   beforeAuthenticate_login ADMINLOGIN accept_signature two_users alice_login =
     Inl (Unauthorized ''Invalid admin'') \<and>
   beforeAuthenticate_login ADMINLOGIN accept_signature two_users alice_login \<noteq>
     Inl (Forbidden ''Invalid admin'')"
  by (simp add: login_eval)

text \<open>
  C2, amended. For an admin login whose nonce, network, wallet and signature checks have
  passed with the user \<^verbatim>\<open>user\<close>: the capability check passes exactly when \<^verbatim>\<open>ADMIN\<close>
  is among the user's permissions, whatever else is (so \<^verbatim>\<open>{ADMIN}\<close> and
  \<^verbatim>\<open>{ADMIN, USER}\<close> pass, with or without further permissions, and \<^verbatim>\<open>{USER}\<close> does
  not); when it fails it throws \<^verbatim>\<open>Forbidden('Invalid admin')\<close>, which reaches the
  caller of \<^verbatim>\<open>beforeAuthenticate\<close> as \<^verbatim>\<open>Unauthorized('Invalid admin')\<close>.
\<close>

theorem admin_login_capability:
  assumes "resolveLogin va st c = Inr (user, c')"
  shows "checkPermission ADMINLOGIN (u_permissions user) =
           (if ADMIN \<in> set (u_permissions user) then Inr ()
            else Inl (Forbidden ''Invalid admin'')) \<and>
         beforeAuthenticate_login ADMINLOGIN va st c =
           (if ADMIN \<in> set (u_permissions user)
            then Inr (c'\<lparr>c_data := Some (userProfile user)\<rparr>)
            else Inl (Unauthorized ''Invalid admin''))"
  using assms
  by (simp add: checkPermission_admin beforeAuthenticate_login_def verifyLogin_def)

theorem admin_login_capability_witness:
  "resolveLogin accept_signature two_users bob_login = Inr (bob, bob_login) \<and>
   beforeAuthenticate_login ADMINLOGIN accept_signature two_users bob_login =
     Inr (bob_login\<lparr>c_data := Some (userProfile bob)\<rparr>)"
proof -
  have h: "resolveLogin accept_signature two_users bob_login = Inr (bob, bob_login)"
    by (simp add: resolveLogin_def Let_def findWalletUser_def walletKey_def primaryAddress_def
      split_def startsWith_def network_exists_def
      two_users_def alice_def bob_def alice_wallet_def bob_wallet_def bob_near_wallet_def
      bob_login_def accept_signature_def myriad_network_def near_mainnet_def)
  have "ADMIN \<in> set (u_permissions bob)" by (simp add: bob_def)
  with admin_login_capability [OF h] h show ?thesis by simp
qed

section \<open>Properties: the nonce\<close>

lemma find_map_pres:
  "(\<And>x. P (f x) = P x) \<Longrightarrow> find P (map f xs) = map_option f (find P xs)"
  by (induction xs) auto

lemma find_wallet_updateAll:
  "find (\<lambda>w. w_id w = key \<and> w_type w = ty) (updateAll_primary b P ws) =
   map_option (\<lambda>w. if P w then w\<lparr>w_primary := b\<rparr> else w)
     (find (\<lambda>w. w_id w = key \<and> w_type w = ty) ws)"
  unfolding updateAll_primary_def by (rule find_map_pres) simp

lemma find_user_updateById:
  "find (\<lambda>u. Some (u_id u) = q) (updateById_nonce k n us) =
   map_option (\<lambda>u. if u_id u = k then u\<lparr>u_nonce := n\<rparr> else u)
     (find (\<lambda>u. Some (u_id u) = q) us)"
  unfolding updateById_nonce_def by (rule find_map_pres) simp

lemma findWalletUser_wallet_update:
  "findWalletUser (apply_update (WalletUpdateAll b wh) st) key ty = findWalletUser st key ty"
  by (cases "find (\<lambda>w. w_id w = key \<and> w_type w = ty) (wallets st)")
    (simp_all add: findWalletUser_def find_wallet_updateAll)

lemma findWalletUser_nonce_update:
  "findWalletUser (apply_update (UserUpdateNonce k n) st) key ty =
   map_option (\<lambda>u. if u_id u = k then u\<lparr>u_nonce := n\<rparr> else u) (findWalletUser st key ty)"
  by (cases "find (\<lambda>w. w_id w = key \<and> w_type w = ty) (wallets st)")
    (simp_all add: findWalletUser_def find_user_updateById)

lemma networks_apply_update: "networks (apply_update upd st) = networks st"
  by (cases upd) simp_all

lemma networks_land: "networks (land ups st) = networks st"
  by (induction ups arbitrary: st) (simp_all add: networks_apply_update)

text \<open>
  Whatever lands of one nonce update and any wallet updates, in any order and any number
  of times: the owner of a wallet is who it was, with the new nonce exactly when the nonce
  update is among the landed ones and is for that user.
\<close>

lemma findWalletUser_land:
  assumes "\<forall>upd\<in>set ups. upd = UserUpdateNonce k n \<or> (\<exists>b wh. upd = WalletUpdateAll b wh)"
  shows "findWalletUser (land ups st) key ty =
    map_option (\<lambda>u. if u_id u = k \<and> UserUpdateNonce k n \<in> set ups
                     then u\<lparr>u_nonce := n\<rparr> else u)
      (findWalletUser st key ty)"
  using assms
proof (induction ups arbitrary: st)
  case Nil
  then show ?case by (simp add: option.map_ident)
next
  case (Cons upd ups)
  from Cons.prems have rest: "\<forall>upd\<in>set ups. upd = UserUpdateNonce k n \<or> (\<exists>b wh. upd = WalletUpdateAll b wh)"
    by simp
  from Cons.prems consider "upd = UserUpdateNonce k n" | b wh where "upd = WalletUpdateAll b wh"
    by auto
  then show ?case
  proof cases
    case 1
    show ?thesis
      unfolding land.simps Cons.IH [OF rest] 1 findWalletUser_nonce_update
      by (cases "findWalletUser st key ty") auto
  next
    case 2
    show ?thesis
      unfolding land.simps Cons.IH [OF rest] 2 findWalletUser_wallet_update
      by (cases "findWalletUser st key ty") auto
  qed
qed

lemma resolveLogin_InrD:
  assumes "resolveLogin va st c = Inr (user, c1)"
  shows "c_nonce c = Some (u_nonce user)" "u_nonce user \<noteq> 0"
    "network_exists (networks st) (c_networkType c)"
    "findWalletUser st (walletKey c) (c_walletType c) = Some user"
    "c1 = c\<lparr>c_publicAddress := primaryAddress c\<rparr>"
  using assms
  by (auto simp: resolveLogin_def Let_def split: if_splits option.splits)

lemma intercept_login_InrD:
  assumes "intercept_login m va nxt nn st c = (Inr r, started)"
  shows "\<exists>user c1. resolveLogin va st c = Inr (user, c1) \<and>
           started = [UserUpdateNonce (u_id user) nn,
                      WalletUpdateAll False (WhereUserId (u_id user)),
                      WalletUpdateAll True (WhereType (c_walletType c))]"
proof -
  from assms obtain c' where b: "beforeAuthenticate_login m va st c = Inr c'"
    by (auto simp: intercept_login_def split: sum.splits)
  then obtain user c1 where r: "resolveLogin va st c = Inr (user, c1)"
    and c': "c' = c1\<lparr>c_data := Some (userProfile user)\<rparr>"
    by (auto simp: beforeAuthenticate_login_def verifyLogin_def split: sum.splits)
  from resolveLogin_InrD(5)[OF r] c' have wt: "c_walletType c' = c_walletType c"
    and d: "c_data c' = Some (userProfile user)" by simp_all
  from assms b have "afterAuthenticate_login nn c' = Inr started"
    by (auto simp: intercept_login_def split: sum.splits if_splits)
  with wt d have "started = [UserUpdateNonce (u_id user) nn,
                      WalletUpdateAll False (WhereUserId (u_id user)),
                      WalletUpdateAll True (WhereType (c_walletType c))]"
    by (auto simp: afterAuthenticate_login_def Let_def userProfile_def)
  with r show ?thesis by blast
qed

lemma zero_or_absent_nonce:
  "c_nonce c = None \<or> c_nonce c = Some 0 \<Longrightarrow>
   beforeAuthenticate_login m va st c = Inl (Unauthorized ''Invalid nonce!'')"
  by (auto simp: beforeAuthenticate_login_def verifyLogin_def resolveLogin_def)

lemma stale_nonce:
  assumes "findWalletUser st (walletKey c) (c_walletType c) = Some u"
    and "c_nonce c \<noteq> Some (u_nonce u)"
  shows "beforeAuthenticate_login m va st c =
    Inl (Unauthorized
      (if c_nonce c = None \<or> c_nonce c = Some 0 \<or>
          network_exists (networks st) (c_networkType c)
       then ''Invalid nonce!'' else ''Network not exists''))"
  using assms
  by (auto simp: beforeAuthenticate_login_def verifyLogin_def resolveLogin_def Let_def)

lemma landed_owner:
  assumes ok: "intercept_login m va nxt newNonce st c = (Inr r, started)"
    and sub: "set landed \<subseteq> set started"
    and nonce: "UserUpdateNonce ident newNonce \<in> set landed"
  shows "\<exists>user. findWalletUser st (walletKey c) (c_walletType c) = Some user \<and>
           c_nonce c = Some (u_nonce user) \<and>
           network_exists (networks st) (c_networkType c) \<and>
           findWalletUser (land landed st) (walletKey c) (c_walletType c) =
             Some (user\<lparr>u_nonce := newNonce\<rparr>)"
proof -
  from intercept_login_InrD [OF ok] obtain user c1 where
    r: "resolveLogin va st c = Inr (user, c1)" and
    st: "started = [UserUpdateNonce (u_id user) newNonce,
                      WalletUpdateAll False (WhereUserId (u_id user)),
                      WalletUpdateAll True (WhereType (c_walletType c))]"
    by blast
  from sub nonce st have i: "ident = u_id user" by auto
  from sub st have all: "\<forall>upd\<in>set landed. upd = UserUpdateNonce (u_id user) newNonce \<or>
      (\<exists>b wh. upd = WalletUpdateAll b wh)"
    by auto
  note d = resolveLogin_InrD [OF r]
  have "findWalletUser (land landed st) (walletKey c) (c_walletType c) =
      Some (user\<lparr>u_nonce := newNonce\<rparr>)"
    unfolding findWalletUser_land [OF all] using d(4) nonce i by simp
  with d show ?thesis by blast
qed

lemma replay_rejected:
  assumes ok: "intercept_login m va nxt newNonce st c = (Inr r, started)"
    and sub: "set landed \<subseteq> set started"
    and nonce: "UserUpdateNonce ident newNonce \<in> set landed"
    and fresh: "c_nonce c \<noteq> Some newNonce"
  shows "intercept_login m' va' nxt' n' (land landed st) c =
           (Inl (Unauthorized ''Invalid nonce!''), [])"
proof -
  from landed_owner [OF ok sub nonce] obtain user where
    u: "network_exists (networks st) (c_networkType c)"
      "findWalletUser (land landed st) (walletKey c) (c_walletType c) =
         Some (user\<lparr>u_nonce := newNonce\<rparr>)"
    by blast
  from fresh have "c_nonce c \<noteq> Some (u_nonce (user\<lparr>u_nonce := newNonce\<rparr>))" by simp
  from stale_nonce [OF u(2) this, of m' va'] u(1)
  have "beforeAuthenticate_login m' va' (land landed st) c =
      Inl (Unauthorized ''Invalid nonce!'')"
    by (simp add: networks_land)
  then show ?thesis by (simp add: intercept_login_def)
qed

lemma replay_attempts:
  assumes "intercept_login m va nxt newNonce st c = (Inr r, started)"
    and "set landed \<subseteq> set started"
    and "UserUpdateNonce ident newNonce \<in> set landed"
    and "c_nonce c \<noteq> Some newNonce"
  shows "login_attempts m' va' nxt' n' k (land landed st) c =
           (replicate k (Inl (Unauthorized ''Invalid nonce!'')), land landed st)"
  by (induction k) (simp_all add: replay_rejected [OF assms])

text \<open>
  C3, as stated: a login whose nonce differs from the stored one fails with
  \<^verbatim>\<open>Invalid nonce!\<close>, and after a successful login the consumed nonce is rejected. With
  an unregistered network, Alice's login with the wrong nonce 8 fails with
  \<^verbatim>\<open>Network not exists\<close>. After Alice's successful login with nonce 7, the same request
  is accepted again when no update has landed yet, when the nonce update has failed and
  only the wallet updates have landed, and when all updates have landed but the generator
  had returned 7.
\<close>

theorem consumed_nonce_accepted_again:
  "beforeAuthenticate_login LOGIN accept_signature two_users
     (alice_login\<lparr>c_nonce := Some 8, c_networkType := OtherNetwork ''kusama''\<rparr>) =
     Inl (Unauthorized ''Network not exists'') \<and>
   intercept_login LOGIN accept_signature issue_token 99 two_users alice_login =
     (Inr \<lparr>o_nonce = None, o_body = ''accessToken''\<rparr>,
      [UserUpdateNonce ''u1'' 99, WalletUpdateAll False (WhereUserId ''u1''),
       WalletUpdateAll True (WhereType ''polkadot'')]) \<and>
   fst (intercept_login LOGIN accept_signature issue_token 100 (land [] two_users) alice_login) =
     Inr \<lparr>o_nonce = None, o_body = ''accessToken''\<rparr> \<and>
   fst (intercept_login LOGIN accept_signature issue_token 100
          (land [WalletUpdateAll False (WhereUserId ''u1''),
                 WalletUpdateAll True (WhereType ''polkadot'')] two_users) alice_login) =
     Inr \<lparr>o_nonce = None, o_body = ''accessToken''\<rparr> \<and>
   intercept_login LOGIN accept_signature issue_token 7 two_users alice_login =
     (Inr \<lparr>o_nonce = None, o_body = ''accessToken''\<rparr>,
      [UserUpdateNonce ''u1'' 7, WalletUpdateAll False (WhereUserId ''u1''),
       WalletUpdateAll True (WhereType ''polkadot'')]) \<and>
   fst (intercept_login LOGIN accept_signature issue_token 100
          (land [UserUpdateNonce ''u1'' 7, WalletUpdateAll False (WhereUserId ''u1''),
                 WalletUpdateAll True (WhereType ''polkadot'')] two_users) alice_login) =
     Inr \<lparr>o_nonce = None, o_body = ''accessToken''\<rparr>"
  by (simp add: login_eval)

text \<open>
  C3, amended. A login with an absent or zero nonce fails with \<^verbatim>\<open>Invalid nonce!\<close>. A
  login whose nonce differs from the nonce stored for the owner of the wallet fails: with
  \<^verbatim>\<open>Invalid nonce!\<close> when the network is registered (or the nonce is absent or zero),
  with \<^verbatim>\<open>Network not exists\<close> otherwise. A successful login starts the update of the
  owner's nonce to the newly generated one. Once that update has landed, with or without
  the wallet updates started with it and in any order, the owner's stored nonce is the new
  one; if the new nonce differs from the one just used, the same request sent again fails
  with \<^verbatim>\<open>Invalid nonce!\<close> and starts no update, so it fails again however often it is
  repeated.
\<close>

theorem nonce_single_use:
  "(c_nonce c = None \<or> c_nonce c = Some 0 \<longrightarrow>
      beforeAuthenticate_login m va st c = Inl (Unauthorized ''Invalid nonce!'')) \<and>
   (findWalletUser st (walletKey c) (c_walletType c) = Some u \<and>
    c_nonce c \<noteq> Some (u_nonce u) \<longrightarrow>
      beforeAuthenticate_login m va st c =
        Inl (Unauthorized
          (if c_nonce c = None \<or> c_nonce c = Some 0 \<or>
              network_exists (networks st) (c_networkType c)
           then ''Invalid nonce!'' else ''Network not exists''))) \<and>
   (intercept_login m va nxt newNonce st c = (Inr r, started) \<and>
    set landed \<subseteq> set started \<and> UserUpdateNonce ident newNonce \<in> set landed \<longrightarrow>
      map_option u_nonce (findWalletUser (land landed st) (walletKey c) (c_walletType c)) =
        Some newNonce \<and>
      (c_nonce c \<noteq> Some newNonce \<longrightarrow>
         intercept_login m' va' nxt' n' (land landed st) c =
           (Inl (Unauthorized ''Invalid nonce!''), []) \<and>
         login_attempts m' va' nxt' n' k (land landed st) c =
           (replicate k (Inl (Unauthorized ''Invalid nonce!'')), land landed st)))"
proof -
  have 3: "map_option u_nonce (findWalletUser (land landed st) (walletKey c) (c_walletType c)) =
        Some newNonce"
    if "intercept_login m va nxt newNonce st c = (Inr r, started)"
      "set landed \<subseteq> set started" "UserUpdateNonce ident newNonce \<in> set landed"
    using landed_owner [OF that] by auto
  from zero_or_absent_nonce [of c m va st] stale_nonce [of st c u m va] 3
    replay_rejected [of m va nxt newNonce st c r started landed ident m' va' nxt' n']
    replay_attempts [of m va nxt newNonce st c r started landed ident m' va' nxt' n' k]
  show ?thesis by blast
qed

theorem nonce_single_use_witness:
  "beforeAuthenticate_login LOGIN accept_signature two_users (alice_login\<lparr>c_nonce := Some 0\<rparr>) =
     Inl (Unauthorized ''Invalid nonce!'') \<and>
   beforeAuthenticate_login LOGIN accept_signature two_users (alice_login\<lparr>c_nonce := Some 8\<rparr>) =
     Inl (Unauthorized ''Invalid nonce!'') \<and>
   intercept_login LOGIN accept_signature issue_token 99 two_users alice_login =
     (Inr \<lparr>o_nonce = None, o_body = ''accessToken''\<rparr>,
      [UserUpdateNonce ''u1'' 99, WalletUpdateAll False (WhereUserId ''u1''),
       WalletUpdateAll True (WhereType ''polkadot'')]) \<and>
   land [WalletUpdateAll True (WhereType ''polkadot''), UserUpdateNonce ''u1'' 99] two_users =
     two_users\<lparr>users := [alice\<lparr>u_nonce := 99\<rparr>, bob],
               wallets := [alice_wallet, bob_wallet\<lparr>w_primary := True\<rparr>, bob_near_wallet]\<rparr> \<and>
   login_attempts ADMINLOGIN accept_signature issue_token 5 3
       (land [WalletUpdateAll True (WhereType ''polkadot''), UserUpdateNonce ''u1'' 99] two_users)
       alice_login =
     (replicate 3 (Inl (Unauthorized ''Invalid nonce!'')),
      land [WalletUpdateAll True (WhereType ''polkadot''), UserUpdateNonce ''u1'' 99] two_users)"
proof -
  let ?started = "[UserUpdateNonce ''u1'' 99, WalletUpdateAll False (WhereUserId ''u1''),
       WalletUpdateAll True (WhereType ''polkadot'')]"
  let ?landed = "[WalletUpdateAll True (WhereType ''polkadot''), UserUpdateNonce ''u1'' 99]"
  have a: "c_nonce (alice_login\<lparr>c_nonce := Some 0\<rparr>) = None \<or>
           c_nonce (alice_login\<lparr>c_nonce := Some 0\<rparr>) = Some 0" by simp
  have b: "findWalletUser two_users (walletKey (alice_login\<lparr>c_nonce := Some 8\<rparr>))
      (c_walletType (alice_login\<lparr>c_nonce := Some 8\<rparr>)) = Some alice \<and>
    c_nonce (alice_login\<lparr>c_nonce := Some 8\<rparr>) \<noteq> Some (u_nonce alice)"
    by (simp add: login_eval)
  have n: "network_exists (networks two_users) (c_networkType (alice_login\<lparr>c_nonce := Some 8\<rparr>))"
    by (simp add: login_eval)
  have c: "intercept_login LOGIN accept_signature issue_token 99 two_users alice_login =
     (Inr \<lparr>o_nonce = None, o_body = ''accessToken''\<rparr>, ?started) \<and>
     set ?landed \<subseteq> set ?started \<and> UserUpdateNonce ''u1'' 99 \<in> set ?landed"
    by (simp add: login_eval)
  have f: "c_nonce alice_login \<noteq> Some 99" by (simp add: alice_login_def)
  have l: "land ?landed two_users =
     two_users\<lparr>users := [alice\<lparr>u_nonce := 99\<rparr>, bob],
               wallets := [alice_wallet, bob_wallet\<lparr>w_primary := True\<rparr>, bob_near_wallet]\<rparr>"
    by (simp add: login_eval)
  from a nonce_single_use [where c = "alice_login\<lparr>c_nonce := Some 0\<rparr>" and m = LOGIN
      and va = accept_signature and st = two_users]
  have 1: "beforeAuthenticate_login LOGIN accept_signature two_users
      (alice_login\<lparr>c_nonce := Some 0\<rparr>) = Inl (Unauthorized ''Invalid nonce!'')"
    by blast
  from b nonce_single_use [where c = "alice_login\<lparr>c_nonce := Some 8\<rparr>" and m = LOGIN
      and va = accept_signature and st = two_users and u = alice]
  have "beforeAuthenticate_login LOGIN accept_signature two_users
      (alice_login\<lparr>c_nonce := Some 8\<rparr>) =
      Inl (Unauthorized
          (if c_nonce (alice_login\<lparr>c_nonce := Some 8\<rparr>) = None \<or>
              c_nonce (alice_login\<lparr>c_nonce := Some 8\<rparr>) = Some 0 \<or>
              network_exists (networks two_users)
                (c_networkType (alice_login\<lparr>c_nonce := Some 8\<rparr>))
           then ''Invalid nonce!'' else ''Network not exists''))"
    by blast
  with n have 2: "beforeAuthenticate_login LOGIN accept_signature two_users
      (alice_login\<lparr>c_nonce := Some 8\<rparr>) = Inl (Unauthorized ''Invalid nonce!'')"
    by simp
  from c f nonce_single_use [where c = alice_login and m = LOGIN and va = accept_signature
      and st = two_users and nxt = issue_token and newNonce = 99
      and r = "\<lparr>o_nonce = None, o_body = ''accessToken''\<rparr>" and started = ?started
      and landed = ?landed and ident = "''u1''"
      and m' = ADMINLOGIN and va' = accept_signature and nxt' = issue_token and n' = 5 and k = 3]
  have 3: "login_attempts ADMINLOGIN accept_signature issue_token 5 3
       (land ?landed two_users) alice_login =
     (replicate 3 (Inl (Unauthorized ''Invalid nonce!'')), land ?landed two_users)"
    by blast
  from 1 2 3 c l show ?thesis by blast
qed

section \<open>Properties: fund sweeps\<close>

lemma transfer_loop_counts:
  "count_list (snd (transfer_loop ch to ps evs)) Connect = count_list evs Connect \<and>
   count_list (snd (transfer_loop ch to ps evs)) Disconnect = count_list evs Disconnect"
  by (induction ps arbitrary: evs) (auto simp: Let_def split: option.splits)

text \<open>The loop over posts whose chain calls all complete, followed by further posts.\<close>

lemma transfer_loop_append:
  assumes "\<forall>post\<in>set pre. \<exists>free.
             account_free ch (addFromUri ch (''//'' @ po_id post)) = Some free \<and>
             (free \<noteq> 0 \<longrightarrow>
              signAndSend_ok ch (addFromUri ch (''//'' @ po_id post)) target (int free - gasFee))"
  shows "transfer_loop ch target (pre @ later) evs =
    transfer_loop ch target later
      (evs @
       concat (map (\<lambda>post.
                      case account_free ch (addFromUri ch (''//'' @ po_id post)) of
                        None \<Rightarrow> []
                      | Some free \<Rightarrow>
                          QueryAccount (addFromUri ch (''//'' @ po_id post)) #
                          (if free = 0 then []
                           else [TransferSubmit (addFromUri ch (''//'' @ po_id post)) target
                                   (int free - gasFee)]))
                 pre))"
  using assms
  by (induction pre arbitrary: evs) (auto simp: Let_def)

text \<open>The loop ends normally exactly when the chain calls for every post complete.\<close>

lemma transfer_loop_Inr:
  "(fst (transfer_loop ch target sel evs) = Inr ()) =
     list_all (\<lambda>post.
                 case account_free ch (addFromUri ch (''//'' @ po_id post)) of
                   None \<Rightarrow> False
                 | Some free \<Rightarrow>
                     free = 0 \<or>
                     signAndSend_ok ch (addFromUri ch (''//'' @ po_id post)) target (int free - gasFee))
       sel"
  by (induction sel arbitrary: evs) (auto simp: Let_def split: option.splits)

lemma sweep_counts:
  "count_list (snd (sweep ch to sel)) Connect = (if api_connects ch then 1 else 0) \<and>
   count_list (snd (sweep ch to sel)) Disconnect =
     (case fst (sweep ch to sel) of Inl e \<Rightarrow> 0 | Inr u \<Rightarrow> 1)"
proof (cases "api_connects ch")
  case False
  then show ?thesis by (simp add: sweep_def)
next
  case True
  obtain res evs where l: "transfer_loop ch to sel [Connect] = (res, evs)"
    by (cases "transfer_loop ch to sel [Connect]")
  from transfer_loop_counts [of ch to sel "[Connect]"] l
  have "count_list evs Connect = 1" "count_list evs Disconnect = 0" by simp_all
  with True l show ?thesis by (cases res) (simp_all add: sweep_def)
qed

lemma sweep_Inr:
  "(fst (sweep ch target sel) = Inr ()) =
     (api_connects ch \<and>
      list_all (\<lambda>post.
                  case account_free ch (addFromUri ch (''//'' @ po_id post)) of
                    None \<Rightarrow> False
                  | Some free \<Rightarrow>
                      free = 0 \<or>
                      signAndSend_ok ch (addFromUri ch (''//'' @ po_id post)) target (int free - gasFee))
        sel)"
proof (cases "api_connects ch")
  case False
  then show ?thesis by (simp add: sweep_def)
next
  case True
  obtain res evs where l: "transfer_loop ch target sel [Connect] = (res, evs)"
    by (cases "transfer_loop ch target sel [Connect]")
  from transfer_loop_Inr [of ch target sel "[Connect]"] l True show ?thesis
    by (cases res) (simp_all add: sweep_def)
qed

lemma sweep_connection_general:
  "count_list (snd (sweep ch target sel)) Connect =
     (if api_connects ch then 1 else 0) \<and>
   count_list (snd (sweep ch target sel)) Disconnect =
     (if api_connects ch \<and>
         list_all (\<lambda>post.
                     case account_free ch (addFromUri ch (''//'' @ po_id post)) of
                       None \<Rightarrow> False
                     | Some free \<Rightarrow>
                         free = 0 \<or>
                         signAndSend_ok ch (addFromUri ch (''//'' @ po_id post)) target (int free - gasFee))
           sel
      then 1 else 0) \<and>
   (fst (sweep ch target sel) = Inr ()) =
     (api_connects ch \<and>
      list_all (\<lambda>post.
                  case account_free ch (addFromUri ch (''//'' @ po_id post)) of
                    None \<Rightarrow> False
                  | Some free \<Rightarrow>
                      free = 0 \<or>
                      signAndSend_ok ch (addFromUri ch (''//'' @ po_id post)) target (int free - gasFee))
        sel)"
proof -
  have "count_list (snd (sweep ch target sel)) Disconnect =
      (if fst (sweep ch target sel) = Inr () then 1 else 0)"
    using sweep_counts [of ch target sel] by (cases "fst (sweep ch target sel)") simp_all
  then show ?thesis
    using sweep_counts [of ch target sel] sweep_Inr [of ch target sel] by simp
qed

lemma sweep_success:
  "api_connects ch \<and>
   (\<forall>post\<in>set sel. \<exists>free.
      account_free ch (addFromUri ch (''//'' @ po_id post)) = Some free \<and>
      (free \<noteq> 0 \<longrightarrow>
       signAndSend_ok ch (addFromUri ch (''//'' @ po_id post)) target (int free - gasFee))) \<longrightarrow>
     sweep ch target sel =
       (Inr (),
        Connect #
        concat (map (\<lambda>post.
                       case account_free ch (addFromUri ch (''//'' @ po_id post)) of
                         None \<Rightarrow> []
                       | Some free \<Rightarrow>
                           QueryAccount (addFromUri ch (''//'' @ po_id post)) #
                           (if free = 0 then []
                            else [TransferSubmit (addFromUri ch (''//'' @ po_id post)) target
                                    (int free - gasFee)]))
                  sel) @
        [Disconnect]) \<and>
     length (filter is_transfer (snd (sweep ch target sel))) =
       length (filter (\<lambda>post. account_free ch (addFromUri ch (''//'' @ po_id post)) \<noteq> Some 0)
                 sel)"
proof (intro impI, elim conjE)
  assume c: "api_connects ch"
    and ok: "\<forall>post\<in>set sel. \<exists>free.
               account_free ch (addFromUri ch (''//'' @ po_id post)) = Some free \<and>
               (free \<noteq> 0 \<longrightarrow>
                signAndSend_ok ch (addFromUri ch (''//'' @ po_id post)) target (int free - gasFee))"
  from transfer_loop_append [OF ok, of "[]" "[Connect]"] c
  have s: "sweep ch target sel =
      (Inr (),
       Connect #
       concat (map (\<lambda>post.
                      case account_free ch (addFromUri ch (''//'' @ po_id post)) of
                        None \<Rightarrow> []
                      | Some free \<Rightarrow>
                          QueryAccount (addFromUri ch (''//'' @ po_id post)) #
                          (if free = 0 then []
                           else [TransferSubmit (addFromUri ch (''//'' @ po_id post)) target
                                   (int free - gasFee)]))
                 sel) @
       [Disconnect])"
    by (simp add: sweep_def)
  from ok have "length (filter is_transfer
      (concat (map (\<lambda>post.
                      case account_free ch (addFromUri ch (''//'' @ po_id post)) of
                        None \<Rightarrow> []
                      | Some free \<Rightarrow>
                          QueryAccount (addFromUri ch (''//'' @ po_id post)) #
                          (if free = 0 then []
                           else [TransferSubmit (addFromUri ch (''//'' @ po_id post)) target
                                   (int free - gasFee)]))
                 sel))) =
      length (filter (\<lambda>post. account_free ch (addFromUri ch (''//'' @ po_id post)) \<noteq> Some 0) sel)"
    by (induction sel) auto
  with s show "sweep ch target sel =
      (Inr (),
       Connect #
       concat (map (\<lambda>post.
                      case account_free ch (addFromUri ch (''//'' @ po_id post)) of
                        None \<Rightarrow> []
                      | Some free \<Rightarrow>
                          QueryAccount (addFromUri ch (''//'' @ po_id post)) #
                          (if free = 0 then []
                           else [TransferSubmit (addFromUri ch (''//'' @ po_id post)) target
                                   (int free - gasFee)]))
                 sel) @
       [Disconnect]) \<and>
     length (filter is_transfer (snd (sweep ch target sel))) =
       length (filter (\<lambda>post. account_free ch (addFromUri ch (''//'' @ po_id post)) \<noteq> Some 0)
                 sel)"
    by simp
qed

lemma sweep_query_abort:
  "api_connects ch \<and>
   sel = pre @ failing # rest \<and>
   (\<forall>post\<in>set pre. \<exists>free.
      account_free ch (addFromUri ch (''//'' @ po_id post)) = Some free \<and>
      (free \<noteq> 0 \<longrightarrow>
       signAndSend_ok ch (addFromUri ch (''//'' @ po_id post)) target (int free - gasFee))) \<and>
   account_free ch (addFromUri ch (''//'' @ po_id failing)) = None \<longrightarrow>
     sweep ch target sel =
       (Inl (ChainError ''account query failed''),
        Connect #
        concat (map (\<lambda>post.
                       case account_free ch (addFromUri ch (''//'' @ po_id post)) of
                         None \<Rightarrow> []
                       | Some free \<Rightarrow>
                           QueryAccount (addFromUri ch (''//'' @ po_id post)) #
                           (if free = 0 then []
                            else [TransferSubmit (addFromUri ch (''//'' @ po_id post)) target
                                    (int free - gasFee)]))
                  pre) @
        [QueryAccount (addFromUri ch (''//'' @ po_id failing))])"
proof (intro impI, elim conjE)
  assume c: "api_connects ch" and s: "sel = pre @ failing # rest"
    and ok: "\<forall>post\<in>set pre. \<exists>free.
             account_free ch (addFromUri ch (''//'' @ po_id post)) = Some free \<and>
             (free \<noteq> 0 \<longrightarrow>
              signAndSend_ok ch (addFromUri ch (''//'' @ po_id post)) target (int free - gasFee))"
    and q: "account_free ch (addFromUri ch (''//'' @ po_id failing)) = None"
  from transfer_loop_append [OF ok, of "failing # rest" "[Connect]"] c q
  show "sweep ch target sel =
      (Inl (ChainError ''account query failed''),
       Connect #
       concat (map (\<lambda>post.
                      case account_free ch (addFromUri ch (''//'' @ po_id post)) of
                        None \<Rightarrow> []
                      | Some free \<Rightarrow>
                          QueryAccount (addFromUri ch (''//'' @ po_id post)) #
                          (if free = 0 then []
                           else [TransferSubmit (addFromUri ch (''//'' @ po_id post)) target
                                   (int free - gasFee)]))
                 pre) @
       [QueryAccount (addFromUri ch (''//'' @ po_id failing))])"
    unfolding s by (simp add: sweep_def Let_def)
qed

lemma sweep_transfer_abort:
  "api_connects ch \<and>
   sel = pre @ failing # rest \<and>
   (\<forall>post\<in>set pre. \<exists>free.
      account_free ch (addFromUri ch (''//'' @ po_id post)) = Some free \<and>
      (free \<noteq> 0 \<longrightarrow>
       signAndSend_ok ch (addFromUri ch (''//'' @ po_id post)) target (int free - gasFee))) \<and>
   account_free ch (addFromUri ch (''//'' @ po_id failing)) = Some balance \<and>
   balance \<noteq> 0 \<and>
   \<not> signAndSend_ok ch (addFromUri ch (''//'' @ po_id failing)) target (int balance - gasFee) \<longrightarrow>
     sweep ch target sel =
       (Inl (ChainError ''transfer failed''),
        Connect #
        concat (map (\<lambda>post.
                       case account_free ch (addFromUri ch (''//'' @ po_id post)) of
                         None \<Rightarrow> []
                       | Some free \<Rightarrow>
                           QueryAccount (addFromUri ch (''//'' @ po_id post)) #
                           (if free = 0 then []
                            else [TransferSubmit (addFromUri ch (''//'' @ po_id post)) target
                                    (int free - gasFee)]))
                  pre) @
        [QueryAccount (addFromUri ch (''//'' @ po_id failing)),
         TransferSubmit (addFromUri ch (''//'' @ po_id failing)) target
           (int balance - gasFee)])"
proof (intro impI, elim conjE)
  assume c: "api_connects ch" and s: "sel = pre @ failing # rest"
    and ok: "\<forall>post\<in>set pre. \<exists>free.
             account_free ch (addFromUri ch (''//'' @ po_id post)) = Some free \<and>
             (free \<noteq> 0 \<longrightarrow>
              signAndSend_ok ch (addFromUri ch (''//'' @ po_id post)) target (int free - gasFee))"
    and q: "account_free ch (addFromUri ch (''//'' @ po_id failing)) = Some balance" "balance \<noteq> 0"
      "\<not> signAndSend_ok ch (addFromUri ch (''//'' @ po_id failing)) target (int balance - gasFee)"
  from transfer_loop_append [OF ok, of "failing # rest" "[Connect]"] c q
  show "sweep ch target sel =
      (Inl (ChainError ''transfer failed''),
       Connect #
       concat (map (\<lambda>post.
                      case account_free ch (addFromUri ch (''//'' @ po_id post)) of
                        None \<Rightarrow> []
                      | Some free \<Rightarrow>
                          QueryAccount (addFromUri ch (''//'' @ po_id post)) #
                          (if free = 0 then []
                           else [TransferSubmit (addFromUri ch (''//'' @ po_id post)) target
                                   (int free - gasFee)]))
                 pre) @
       [QueryAccount (addFromUri ch (''//'' @ po_id failing)),
        TransferSubmit (addFromUri ch (''//'' @ po_id failing)) target
          (int balance - gasFee)])"
    unfolding s by (simp add: sweep_def Let_def)
qed

lemma escrow_is_sweep:
  "transferEscorwToUser ch ps peopleId target =
     sweep ch target
       (filter (\<lambda>post. po_peopleId post = Some peopleId \<and>
                       po_walletAddress post \<noteq> target) ps)"
  by (simp add: transferEscorwToUser_def)

lemma tips_is_sweep:
  "transferTipsToUser ch ps target accountId =
     sweep ch target
       (filter (\<lambda>post. po_walletAddress post \<noteq> target \<and>
                       po_platformUser post = Some accountId) ps)"
  by (simp add: transferTipsToUser_def)

lemmas chain_eval = good_chain_def p1_failing_chain_def p2_failing_chain_def
  derive_address_def balance_table_def balance_table_without_p2_def
  sends_all_def sends_all_but_p1_def demo_posts_def post1_def post2_def post3_def post4_def
  post5_def transferEscorwToUser_def transferTipsToUser_def sweep_def gasFee_def Let_def

text \<open>
  C6, as stated: the connection is released exactly once on every exit path, also when a
  transfer throws. With a chain client whose transfer from the address of post
  \<^verbatim>\<open>p1\<close> throws, the escrow sweep ends with that exception after the connection has
  been opened, and no disconnect follows.
\<close>

theorem failed_transfer_leaves_connection_open:
  "transferEscorwToUser p1_failing_chain demo_posts 0 ''5Alice'' =
     (Inl (ChainError ''transfer failed''),
      [Connect, QueryAccount ''addr://p1'', TransferSubmit ''addr://p1'' ''5Alice'' 374999853]) \<and>
   count_list (snd (transferEscorwToUser p1_failing_chain demo_posts 0 ''5Alice'')) Disconnect = 0"
  by (simp add: chain_eval)

text \<open>
  C6, amended. Each sweep (escrow or tips) opens one chain connection, after the posts have
  been selected, unless opening it fails. The sweep returns normally, and has then
  disconnected exactly once, exactly when the connection opens and for every selected post
  the balance query returns and the transfer, which is made when the balance is not zero,
  succeeds. In every other case, that is when opening the connection fails or when a
  balance query or a transfer throws, the sweep ends with the exception and has not
  disconnected.
\<close>

theorem sweep_connection:
  "count_list (snd (transferEscorwToUser ch ps peopleId target)) Connect =
     (if api_connects ch then 1 else 0) \<and>
   count_list (snd (transferEscorwToUser ch ps peopleId target)) Disconnect =
     (if api_connects ch \<and>
         list_all (\<lambda>post.
                     case account_free ch (addFromUri ch (''//'' @ po_id post)) of
                       None \<Rightarrow> False
                     | Some free \<Rightarrow>
                         free = 0 \<or>
                         signAndSend_ok ch (addFromUri ch (''//'' @ po_id post)) target (int free - gasFee))
           (filter (\<lambda>post. po_peopleId post = Some peopleId \<and>
                           po_walletAddress post \<noteq> target) ps)
      then 1 else 0) \<and>
   (fst (transferEscorwToUser ch ps peopleId target) = Inr ()) =
     (api_connects ch \<and>
      list_all (\<lambda>post.
                  case account_free ch (addFromUri ch (''//'' @ po_id post)) of
                    None \<Rightarrow> False
                  | Some free \<Rightarrow>
                      free = 0 \<or>
                      signAndSend_ok ch (addFromUri ch (''//'' @ po_id post)) target (int free - gasFee))
        (filter (\<lambda>post. po_peopleId post = Some peopleId \<and>
                        po_walletAddress post \<noteq> target) ps)) \<and>
   count_list (snd (transferTipsToUser ch ps target accountId)) Connect =
     (if api_connects ch then 1 else 0) \<and>
   count_list (snd (transferTipsToUser ch ps target accountId)) Disconnect =
     (if api_connects ch \<and>
         list_all (\<lambda>post.
                     case account_free ch (addFromUri ch (''//'' @ po_id post)) of
                       None \<Rightarrow> False
                     | Some free \<Rightarrow>
                         free = 0 \<or>
                         signAndSend_ok ch (addFromUri ch (''//'' @ po_id post)) target (int free - gasFee))
           (filter (\<lambda>post. po_walletAddress post \<noteq> target \<and>
                           po_platformUser post = Some accountId) ps)
      then 1 else 0) \<and>
   (fst (transferTipsToUser ch ps target accountId) = Inr ()) =
     (api_connects ch \<and>
      list_all (\<lambda>post.
                  case account_free ch (addFromUri ch (''//'' @ po_id post)) of
                    None \<Rightarrow> False
                  | Some free \<Rightarrow>
                      free = 0 \<or>
                      signAndSend_ok ch (addFromUri ch (''//'' @ po_id post)) target (int free - gasFee))
        (filter (\<lambda>post. po_walletAddress post \<noteq> target \<and>
                        po_platformUser post = Some accountId) ps))"
proof -
  note facts =
    sweep_connection_general [where ch = ch and target = target
      and sel = "(filter (\<lambda>post. po_peopleId post = Some peopleId \<and>
                              po_walletAddress post \<noteq> target) ps)"]
    sweep_connection_general [where ch = ch and target = target
      and sel = "(filter (\<lambda>post. po_walletAddress post \<noteq> target \<and>
                              po_platformUser post = Some accountId) ps)"]
  from facts show ?thesis
    unfolding escrow_is_sweep tips_is_sweep by blast
qed

text \<open>
  C7, as stated: the sweep selects exactly the posts whose wallet address differs from the
  target, and every such post with a positive balance gets one transfer. Post \<^verbatim>\<open>p4\<close>
  has another wallet address than the target and a positive balance, but belongs to
  another persona: the escrow sweep for persona 0 neither queries nor transfers it. And
  when the transfer for \<^verbatim>\<open>p1\<close> throws, the sweep ends there: post \<^verbatim>\<open>p3\<close>, selected
  and with a positive balance, gets no transfer.
\<close>

theorem sweep_is_per_persona_and_aborts:
  "post4 \<in> set demo_posts \<and> po_walletAddress post4 \<noteq> ''5Alice'' \<and>
   account_free good_chain (addFromUri good_chain (''//'' @ po_id post4)) = Some 700000000 \<and>
   transferEscorwToUser good_chain demo_posts 0 ''5Alice'' =
     (Inr (),
      [Connect, QueryAccount ''addr://p1'', TransferSubmit ''addr://p1'' ''5Alice'' 374999853,
       QueryAccount ''addr://p2'',
       QueryAccount ''addr://p3'', TransferSubmit ''addr://p3'' ''5Alice'' 174999853,
       Disconnect]) \<and>
   account_free p1_failing_chain (addFromUri p1_failing_chain (''//'' @ po_id post3)) =
     Some 300000000 \<and>
   snd (transferEscorwToUser p1_failing_chain demo_posts 0 ''5Alice'') =
     [Connect, QueryAccount ''addr://p1'', TransferSubmit ''addr://p1'' ''5Alice'' 374999853]"
  by (simp add: chain_eval)

text \<open>
  C7, amended. A sweep selects exactly the posts of the persona it is called for (escrow:
  \<^verbatim>\<open>peopleId\<close> equal; tips: \<^verbatim>\<open>platformUser.platform_account_id\<close> equal) whose
  wallet address differs from the target, and goes through them in order: for each it
  queries the balance of the address derived from \<^verbatim>\<open>'//' + post.id\<close> and, when the
  balance is not zero, submits one transfer of the balance minus the fee 125000147 from
  that address to the target. If the connection opens and no query and no transfer for a
  selected post throws, it does so for all selected posts and then disconnects, and the
  number of submitted transfers is the number of selected posts with a non-zero balance.
  If the query or the transfer for a selected post throws, the selected posts before it
  having been processed, the sweep ends with that exception: the selected posts after it
  are neither queried nor transferred.
\<close>

theorem fund_sweep_transfers:
  "(api_connects ch \<and>
    (\<forall>post\<in>set (filter (\<lambda>post. po_peopleId post = Some peopleId \<and>
                    po_walletAddress post \<noteq> target) ps). \<exists>free.
       account_free ch (addFromUri ch (''//'' @ po_id post)) = Some free \<and>
       (free \<noteq> 0 \<longrightarrow>
        signAndSend_ok ch (addFromUri ch (''//'' @ po_id post)) target (int free - gasFee))) \<longrightarrow>
      transferEscorwToUser ch ps peopleId target =
        (Inr (),
         Connect #
         concat (map (\<lambda>post.
                        case account_free ch (addFromUri ch (''//'' @ po_id post)) of
                          None \<Rightarrow> []
                        | Some free \<Rightarrow>
                            QueryAccount (addFromUri ch (''//'' @ po_id post)) #
                            (if free = 0 then []
                             else [TransferSubmit (addFromUri ch (''//'' @ po_id post)) target
                                     (int free - gasFee)]))
                   (filter (\<lambda>post. po_peopleId post = Some peopleId \<and>
                                   po_walletAddress post \<noteq> target) ps)) @
         [Disconnect]) \<and>
      length (filter is_transfer (snd (transferEscorwToUser ch ps peopleId target))) =
        length (filter (\<lambda>post. account_free ch (addFromUri ch (''//'' @ po_id post)) \<noteq> Some 0)
                  (filter (\<lambda>post. po_peopleId post = Some peopleId \<and>
                                  po_walletAddress post \<noteq> target) ps))) \<and>
   (api_connects ch \<and>
    (filter (\<lambda>post. po_peopleId post = Some peopleId \<and>
                    po_walletAddress post \<noteq> target) ps) = pre @ failing # rest \<and>
    (\<forall>post\<in>set pre. \<exists>free.
       account_free ch (addFromUri ch (''//'' @ po_id post)) = Some free \<and>
       (free \<noteq> 0 \<longrightarrow>
        signAndSend_ok ch (addFromUri ch (''//'' @ po_id post)) target (int free - gasFee))) \<and>
    account_free ch (addFromUri ch (''//'' @ po_id failing)) = None \<longrightarrow>
      transferEscorwToUser ch ps peopleId target =
        (Inl (ChainError ''account query failed''),
         Connect #
         concat (map (\<lambda>post.
                        case account_free ch (addFromUri ch (''//'' @ po_id post)) of
                          None \<Rightarrow> []
                        | Some free \<Rightarrow>
                            QueryAccount (addFromUri ch (''//'' @ po_id post)) #
                            (if free = 0 then []
                             else [TransferSubmit (addFromUri ch (''//'' @ po_id post)) target
                                     (int free - gasFee)]))
                   pre) @
         [QueryAccount (addFromUri ch (''//'' @ po_id failing))])) \<and>
   (api_connects ch \<and>
    (filter (\<lambda>post. po_peopleId post = Some peopleId \<and>
                    po_walletAddress post \<noteq> target) ps) = pre @ failing # rest \<and>
    (\<forall>post\<in>set pre. \<exists>free.
       account_free ch (addFromUri ch (''//'' @ po_id post)) = Some free \<and>
       (free \<noteq> 0 \<longrightarrow>
        signAndSend_ok ch (addFromUri ch (''//'' @ po_id post)) target (int free - gasFee))) \<and>
    account_free ch (addFromUri ch (''//'' @ po_id failing)) = Some balance \<and>
    balance \<noteq> 0 \<and>
    \<not> signAndSend_ok ch (addFromUri ch (''//'' @ po_id failing)) target (int balance - gasFee) \<longrightarrow>
      transferEscorwToUser ch ps peopleId target =
        (Inl (ChainError ''transfer failed''),
         Connect #
         concat (map (\<lambda>post.
                        case account_free ch (addFromUri ch (''//'' @ po_id post)) of
                          None \<Rightarrow> []
                        | Some free \<Rightarrow>
                            QueryAccount (addFromUri ch (''//'' @ po_id post)) #
                            (if free = 0 then []
                             else [TransferSubmit (addFromUri ch (''//'' @ po_id post)) target
                                     (int free - gasFee)]))
                   pre) @
         [QueryAccount (addFromUri ch (''//'' @ po_id failing)),
          TransferSubmit (addFromUri ch (''//'' @ po_id failing)) target
            (int balance - gasFee)])) \<and>
   (api_connects ch \<and>
    (\<forall>post\<in>set (filter (\<lambda>post. po_walletAddress post \<noteq> target \<and>
                    po_platformUser post = Some accountId) ps). \<exists>free.
       account_free ch (addFromUri ch (''//'' @ po_id post)) = Some free \<and>
       (free \<noteq> 0 \<longrightarrow>
        signAndSend_ok ch (addFromUri ch (''//'' @ po_id post)) target (int free - gasFee))) \<longrightarrow>
      transferTipsToUser ch ps target accountId =
        (Inr (),
         Connect #
         concat (map (\<lambda>post.
                        case account_free ch (addFromUri ch (''//'' @ po_id post)) of
                          None \<Rightarrow> []
                        | Some free \<Rightarrow>
                            QueryAccount (addFromUri ch (''//'' @ po_id post)) #
                            (if free = 0 then []
                             else [TransferSubmit (addFromUri ch (''//'' @ po_id post)) target
                                     (int free - gasFee)]))
                   (filter (\<lambda>post. po_walletAddress post \<noteq> target \<and>
                                   po_platformUser post = Some accountId) ps)) @
         [Disconnect]) \<and>
      length (filter is_transfer (snd (transferTipsToUser ch ps target accountId))) =
        length (filter (\<lambda>post. account_free ch (addFromUri ch (''//'' @ po_id post)) \<noteq> Some 0)
                  (filter (\<lambda>post. po_walletAddress post \<noteq> target \<and>
                                  po_platformUser post = Some accountId) ps))) \<and>
   (api_connects ch \<and>
    (filter (\<lambda>post. po_walletAddress post \<noteq> target \<and>
                    po_platformUser post = Some accountId) ps) = pre @ failing # rest \<and>
    (\<forall>post\<in>set pre. \<exists>free.
       account_free ch (addFromUri ch (''//'' @ po_id post)) = Some free \<and>
       (free \<noteq> 0 \<longrightarrow>
        signAndSend_ok ch (addFromUri ch (''//'' @ po_id post)) target (int free - gasFee))) \<and>
    account_free ch (addFromUri ch (''//'' @ po_id failing)) = None \<longrightarrow>
      transferTipsToUser ch ps target accountId =
        (Inl (ChainError ''account query failed''),
         Connect #
         concat (map (\<lambda>post.
                        case account_free ch (addFromUri ch (''//'' @ po_id post)) of
                          None \<Rightarrow> []
                        | Some free \<Rightarrow>
                            QueryAccount (addFromUri ch (''//'' @ po_id post)) #
                            (if free = 0 then []
                             else [TransferSubmit (addFromUri ch (''//'' @ po_id post)) target
                                     (int free - gasFee)]))
                   pre) @
         [QueryAccount (addFromUri ch (''//'' @ po_id failing))])) \<and>
   (api_connects ch \<and>
    (filter (\<lambda>post. po_walletAddress post \<noteq> target \<and>
                    po_platformUser post = Some accountId) ps) = pre @ failing # rest \<and>
    (\<forall>post\<in>set pre. \<exists>free.
       account_free ch (addFromUri ch (''//'' @ po_id post)) = Some free \<and>
       (free \<noteq> 0 \<longrightarrow>
        signAndSend_ok ch (addFromUri ch (''//'' @ po_id post)) target (int free - gasFee))) \<and>
    account_free ch (addFromUri ch (''//'' @ po_id failing)) = Some balance \<and>
    balance \<noteq> 0 \<and>
    \<not> signAndSend_ok ch (addFromUri ch (''//'' @ po_id failing)) target (int balance - gasFee) \<longrightarrow>
      transferTipsToUser ch ps target accountId =
        (Inl (ChainError ''transfer failed''),
         Connect #
         concat (map (\<lambda>post.
                        case account_free ch (addFromUri ch (''//'' @ po_id post)) of
                          None \<Rightarrow> []
                        | Some free \<Rightarrow>
                            QueryAccount (addFromUri ch (''//'' @ po_id post)) #
                            (if free = 0 then []
                             else [TransferSubmit (addFromUri ch (''//'' @ po_id post)) target
                                     (int free - gasFee)]))
                   pre) @
         [QueryAccount (addFromUri ch (''//'' @ po_id failing)),
          TransferSubmit (addFromUri ch (''//'' @ po_id failing)) target
            (int balance - gasFee)]))"
proof -
  note facts =
    sweep_success [where ch = ch and target = target
      and sel = "(filter (\<lambda>post. po_peopleId post = Some peopleId \<and>
                              po_walletAddress post \<noteq> target) ps)"]
    sweep_query_abort [where ch = ch and target = target
      and sel = "(filter (\<lambda>post. po_peopleId post = Some peopleId \<and>
                              po_walletAddress post \<noteq> target) ps)"
      and pre = pre and failing = failing and rest = rest]
    sweep_transfer_abort [where ch = ch and target = target
      and sel = "(filter (\<lambda>post. po_peopleId post = Some peopleId \<and>
                              po_walletAddress post \<noteq> target) ps)"
      and pre = pre and failing = failing and rest = rest and balance = balance]
    sweep_success [where ch = ch and target = target
      and sel = "(filter (\<lambda>post. po_walletAddress post \<noteq> target \<and>
                              po_platformUser post = Some accountId) ps)"]
    sweep_query_abort [where ch = ch and target = target
      and sel = "(filter (\<lambda>post. po_walletAddress post \<noteq> target \<and>
                              po_platformUser post = Some accountId) ps)"
      and pre = pre and failing = failing and rest = rest]
    sweep_transfer_abort [where ch = ch and target = target
      and sel = "(filter (\<lambda>post. po_walletAddress post \<noteq> target \<and>
                              po_platformUser post = Some accountId) ps)"
      and pre = pre and failing = failing and rest = rest and balance = balance]
  show ?thesis
    unfolding escrow_is_sweep tips_is_sweep by (intro conjI facts)
qed

theorem fund_sweep_transfers_witness:
  "transferEscorwToUser good_chain demo_posts 0 ''5Alice'' =
     (Inr (),
      [Connect, QueryAccount ''addr://p1'', TransferSubmit ''addr://p1'' ''5Alice'' 374999853,
       QueryAccount ''addr://p2'',
       QueryAccount ''addr://p3'', TransferSubmit ''addr://p3'' ''5Alice'' 174999853,
       Disconnect]) \<and>
   length (filter is_transfer (snd (transferEscorwToUser good_chain demo_posts 0 ''5Alice''))) = 2 \<and>
   transferEscorwToUser p2_failing_chain demo_posts 0 ''5Alice'' =
     (Inl (ChainError ''account query failed''),
      [Connect, QueryAccount ''addr://p1'', TransferSubmit ''addr://p1'' ''5Alice'' 374999853,
       QueryAccount ''addr://p2'']) \<and>
   transferEscorwToUser p1_failing_chain demo_posts 0 ''5Alice'' =
     (Inl (ChainError ''transfer failed''),
      [Connect, QueryAccount ''addr://p1'', TransferSubmit ''addr://p1'' ''5Alice'' 374999853]) \<and>
   transferTipsToUser p2_failing_chain demo_posts ''5Alice'' ''tw-2'' =
     (Inr (),
      [Connect, QueryAccount ''addr://p4'', TransferSubmit ''addr://p4'' ''5Alice'' 574999853,
       Disconnect])"
proof -
  have s: "api_connects good_chain \<and>
           (\<forall>post\<in>set (filter (\<lambda>post. po_peopleId post = Some 0 \<and>
                           po_walletAddress post \<noteq> ''5Alice'') demo_posts). \<exists>free.
              account_free good_chain (addFromUri good_chain (''//'' @ po_id post)) = Some free \<and>
              (free \<noteq> 0 \<longrightarrow>
               signAndSend_ok good_chain (addFromUri good_chain (''//'' @ po_id post)) ''5Alice'' (int free - gasFee)))"
    by (simp add: chain_eval)
  have q: "api_connects p2_failing_chain \<and>
           (filter (\<lambda>post. po_peopleId post = Some 0 \<and>
                           po_walletAddress post \<noteq> ''5Alice'') demo_posts) = [post1] @ post2 # [post3] \<and>
           (\<forall>post\<in>set [post1]. \<exists>free.
              account_free p2_failing_chain (addFromUri p2_failing_chain (''//'' @ po_id post)) = Some free \<and>
              (free \<noteq> 0 \<longrightarrow>
               signAndSend_ok p2_failing_chain (addFromUri p2_failing_chain (''//'' @ po_id post)) ''5Alice'' (int free - gasFee))) \<and>
           account_free p2_failing_chain (addFromUri p2_failing_chain (''//'' @ po_id post2)) = None"
    by (simp add: chain_eval)
  have t: "api_connects p1_failing_chain \<and>
           (filter (\<lambda>post. po_peopleId post = Some 0 \<and>
                           po_walletAddress post \<noteq> ''5Alice'') demo_posts) = [] @ post1 # [post2, post3] \<and>
           (\<forall>post\<in>set []. \<exists>free.
              account_free p1_failing_chain (addFromUri p1_failing_chain (''//'' @ po_id post)) = Some free \<and>
              (free \<noteq> 0 \<longrightarrow>
               signAndSend_ok p1_failing_chain (addFromUri p1_failing_chain (''//'' @ po_id post)) ''5Alice'' (int free - gasFee))) \<and>
           account_free p1_failing_chain (addFromUri p1_failing_chain (''//'' @ po_id post1)) = Some (500000000::nat) \<and>
           (500000000::nat) \<noteq> 0 \<and>
           \<not> signAndSend_ok p1_failing_chain (addFromUri p1_failing_chain (''//'' @ po_id post1)) ''5Alice'' (int (500000000::nat) - gasFee)"
    by (simp add: chain_eval)
  have p: "api_connects p2_failing_chain \<and>
           (\<forall>post\<in>set (filter (\<lambda>post. po_walletAddress post \<noteq> ''5Alice'' \<and>
                           po_platformUser post = Some ''tw-2'') demo_posts). \<exists>free.
              account_free p2_failing_chain (addFromUri p2_failing_chain (''//'' @ po_id post)) = Some free \<and>
              (free \<noteq> 0 \<longrightarrow>
               signAndSend_ok p2_failing_chain (addFromUri p2_failing_chain (''//'' @ po_id post)) ''5Alice'' (int free - gasFee)))"
    by (simp add: chain_eval)
  from fund_sweep_transfers [where peopleId = 0
      and target = "''5Alice''"
      and accountId = "''tw-2''"
      and ps = demo_posts
      and ch = good_chain
      and pre = "[]"
      and failing = post1
      and rest = "[]"
      and balance = 0,
      THEN conjunct1, THEN mp, OF s]
  have 1: "transferEscorwToUser good_chain demo_posts 0 ''5Alice'' =
     (Inr (),
      [Connect, QueryAccount ''addr://p1'', TransferSubmit ''addr://p1'' ''5Alice'' 374999853,
       QueryAccount ''addr://p2'',
       QueryAccount ''addr://p3'', TransferSubmit ''addr://p3'' ''5Alice'' 174999853,
       Disconnect]) \<and>
   length (filter is_transfer (snd (transferEscorwToUser good_chain demo_posts 0 ''5Alice''))) = 2"
    by (simp add: chain_eval)
  from fund_sweep_transfers [where peopleId = 0
      and target = "''5Alice''"
      and accountId = "''tw-2''"
      and ps = demo_posts
      and ch = p2_failing_chain
      and pre = "[post1]"
      and failing = post2
      and rest = "[post3]"
      and balance = 0,
      THEN conjunct2, THEN conjunct1, THEN mp, OF q]
  have 2: "transferEscorwToUser p2_failing_chain demo_posts 0 ''5Alice'' =
     (Inl (ChainError ''account query failed''),
      [Connect, QueryAccount ''addr://p1'', TransferSubmit ''addr://p1'' ''5Alice'' 374999853,
       QueryAccount ''addr://p2''])"
    by (simp add: chain_eval)
  from fund_sweep_transfers [where peopleId = 0
      and target = "''5Alice''"
      and accountId = "''tw-2''"
      and ps = demo_posts
      and ch = p1_failing_chain
      and pre = "[]"
      and failing = post1
      and rest = "[post2, post3]"
      and balance = "500000000::nat",
      THEN conjunct2, THEN conjunct2, THEN conjunct1, THEN mp, OF t]
  have 3: "transferEscorwToUser p1_failing_chain demo_posts 0 ''5Alice'' =
     (Inl (ChainError ''transfer failed''),
      [Connect, QueryAccount ''addr://p1'', TransferSubmit ''addr://p1'' ''5Alice'' 374999853])"
    by (simp add: chain_eval)
  from fund_sweep_transfers [where peopleId = 0
      and target = "''5Alice''"
      and accountId = "''tw-2''"
      and ps = demo_posts
      and ch = p2_failing_chain
      and pre = "[post1]"
      and failing = post2
      and rest = "[post3]"
      and balance = 0,
      THEN conjunct2, THEN conjunct2, THEN conjunct2, THEN conjunct1, THEN mp, OF p]
  have 4: "transferTipsToUser p2_failing_chain demo_posts ''5Alice'' ''tw-2'' =
     (Inr (),
      [Connect, QueryAccount ''addr://p4'', TransferSubmit ''addr://p4'' ''5Alice'' 574999853,
       Disconnect])"
    by (simp add: chain_eval)
  from 1 2 3 4 show ?thesis by blast
qed

section \<open>Properties: the two verification modes\<close>

lemma startsWith_iff: "startsWith s p \<longleftrightarrow> (\<exists>b. s = p @ b)"
  unfolding startsWith_def
  by (metis append_eq_conv_conj append_take_drop_id)

lemma indexOf_from_None:
  "indexOf_from i s p = None \<longleftrightarrow> (\<forall>a b. s \<noteq> a @ p @ b)"
proof (induction s arbitrary: i)
  case Nil
  then show ?case by auto
next
  case (Cons c cs)
  show ?case
  proof (cases "startsWith (c # cs) p")
    case True
    then obtain b where "c # cs = [] @ p @ b" by (auto simp: startsWith_iff)
    with True show ?thesis by (metis indexOf_from.simps(2) option.distinct(1))
  next
    case False
    have "(\<forall>a b. c # cs \<noteq> a @ p @ b) \<longleftrightarrow> (\<forall>a b. cs \<noteq> a @ p @ b)"
    proof
      assume h: "\<forall>a b. c # cs \<noteq> a @ p @ b"
      show "\<forall>a b. cs \<noteq> a @ p @ b"
      proof (intro allI notI)
        fix a b assume "cs = a @ p @ b"
        then have "c # cs = (c # a) @ p @ b" by simp
        with h show False by blast
      qed
    next
      assume h: "\<forall>a b. cs \<noteq> a @ p @ b"
      show "\<forall>a b. c # cs \<noteq> a @ p @ b"
      proof (intro allI notI)
        fix a b assume e: "c # cs = a @ p @ b"
        show False
        proof (cases a)
          case Nil
          with e False show False by (auto simp: startsWith_iff)
        next
          case (Cons x a')
          with e have "cs = a' @ p @ b" by simp
          with h show False by blast
        qed
      qed
    qed
    with False Cons.IH [of "Suc i"] show ?thesis by simp
  qed
qed

lemma indexOf_None_iff: "indexOf s p = None \<longleftrightarrow> (\<forall>a b. s \<noteq> a @ p @ b)"
  by (simp add: indexOf_def indexOf_from_None)

lemma search_plain:
  "\<not> list_ex regexp_special p \<Longrightarrow> search re s p = Inr (indexOf s p)"
  by (simp add: search_def)

lemma link_and_transfer_True:
  "(fst (link_and_transfer env w u k a) = Inr True) =
     (\<exists>w'. createCredential w u k = Inr w' \<and>
            fst (transferTipsToUser (chain env) (posts w') k a) = Inr ())"
  by (auto simp: link_and_transfer_def split: sum.splits prod.splits)

lemma claimed_platform_error:
  "claimed_platform ppl pf cs = Some e \<Longrightarrow> \<exists>m. e = UnprocessableEntity m"
  by (induction cs) (auto split: option.splits if_splits)

lemma createCredential_error:
  "createCredential w u k = Inl e \<Longrightarrow> \<exists>m. e = UnprocessableEntity m"
  by (auto simp: createCredential_def Let_def split: option.splits
      dest: claimed_platform_error)

lemma transfer_loop_error:
  "fst (transfer_loop ch to ps evs) = Inl e \<Longrightarrow> \<exists>m. e = ChainError m"
  by (induction ps arbitrary: evs) (auto simp: Let_def split: option.splits if_splits)

lemma sweep_error:
  "fst (sweep ch to ps) = Inl e \<Longrightarrow> \<exists>m. e = ChainError m"
  using transfer_loop_error [of ch to ps "[Connect]" e]
  by (auto simp: sweep_def split: if_splits prod.splits sum.splits)

lemma link_and_transfer_error:
  "fst (link_and_transfer env w u k a) \<noteq> Inl (NotFound m) \<and>
   fst (link_and_transfer env w u k a) \<noteq> Inr False"
proof (cases "createCredential w u k")
  case (Inl e)
  with createCredential_error [OF Inl] show ?thesis
    by (auto simp: link_and_transfer_def)
next
  case (Inr w')
  obtain res evs where t: "transferTipsToUser (chain env) (posts w') k a = (res, evs)"
    by (cases "transferTipsToUser (chain env) (posts w') k a")
  show ?thesis
  proof (cases res)
    case (Inl e)
    with t have "fst (sweep (chain env) k
        (filter (\<lambda>post. po_platformUser post = Some a)
          (filter (\<lambda>post. po_walletAddress post \<noteq> k) (posts w')))) = Inl e"
      by (simp add: transferTipsToUser_def)
    from sweep_error [OF this] Inl t Inr show ?thesis
      by (auto simp: link_and_transfer_def)
  next
    case (Inr x)
    with t \<open>createCredential w u k = Inr w'\<close> show ?thesis
      by (simp add: link_and_transfer_def)
  qed
qed

lemma verifyUser_twitter:
  assumes "\<not> list_ex regexp_special publicKey"
    and "twitter_user env (''users/by/username/'' @ username @ ''?user.fields=profile_image_url'') =
       Inr (Some user)"
    and "twitter_tweets env (''users/'' @ tu_id user @ ''/tweets?max_results=5'') =
       Inr (text # older)"
  shows "verifyUser env w publicKey username ''twitter'' =
    (case indexOf text publicKey of
       None \<Rightarrow> (Inl (NotFound ''Cannot find specified post''), w)
     | Some i \<Rightarrow>
         link_and_transfer env w
              \<lparr>su_id = tu_id user, su_username = tu_username user, su_platform = ''twitter'',
               su_profile_image_url =
                 Some (case tu_profile_image_url user of
                         None \<Rightarrow> []
                       | Some url \<Rightarrow> replace_first url ''normal'' ''400x400'')\<rparr>
              publicKey (tu_id user))"
  using assms by (simp add: verifyUser_def search_plain split: option.splits)

lemma verifyUser_reddit:
  assumes "\<not> list_ex regexp_special publicKey"
    and "reddit_about env (''user/'' @ username @ ''/about.json'') = Inr redditUser"
    and "reddit_children env (''user/'' @ username @ ''/.json?limit=1'') = Inr (title # older)"
  shows "verifyUser env w publicKey username ''reddit'' =
    (case indexOf title publicKey of
       None \<Rightarrow> (Inl (NotFound ''Cannot find specified post''), w)
     | Some i \<Rightarrow>
         link_and_transfer env w
              \<lparr>su_id = ''t2_'' @ ru_id redditUser, su_username = ru_name redditUser,
               su_platform = ''reddit'',
               su_profile_image_url =
                 Some (case ru_icon_img redditUser of
                         None \<Rightarrow> []
                       | Some img \<Rightarrow> first_piece img ''?'')\<rparr>
              publicKey (''t2_'' @ ru_id redditUser))"
  using assms by (simp add: verifyUser_def search_plain split: option.splits)

lemma found_or_not:
  "(fst (case indexOf str k of
       None \<Rightarrow> (Inl (NotFound ''Cannot find specified post''), w)
     | Some i \<Rightarrow> link_and_transfer env w u k a) = Inl (NotFound ''Cannot find specified post'')) =
     (\<forall>x y. str \<noteq> x @ k @ y) \<and>
   ((\<exists>x y. str = x @ k @ y) \<longrightarrow>
     (case indexOf str k of
       None \<Rightarrow> (Inl (NotFound ''Cannot find specified post''), w)
     | Some i \<Rightarrow> link_and_transfer env w u k a) = link_and_transfer env w u k a)"
proof (cases "indexOf str k")
  case None
  then show ?thesis using indexOf_None_iff [of str k] by simp
next
  case (Some i)
  then have "\<not> (\<forall>x y. str \<noteq> x @ k @ y)" using indexOf_None_iff [of str k] by simp
  with Some link_and_transfer_error [of env w u k a] show ?thesis by simp
qed

text \<open>
  C8, amended. Let the public key have no special character of regular expressions, and
  let the account and at least one tweet (reddit: one post) have been fetched. Then the
  first verification mode fails with \<^verbatim>\<open>NotFound('Cannot find specified post')\<close>
  exactly when the public key does not occur as a substring in the text of the first
  fetched tweet (the title of the first fetched post); the other fetched tweets are not
  searched. When it occurs there, the result is that of linking the persona and sweeping
  the tips, which is \<^verbatim>\<open>true\<close> exactly when the linking and the sweep both succeed.
\<close>

theorem verifyUser_first_post:
  assumes plain: "\<not> list_ex regexp_special publicKey"
  shows
   "(twitter_user env (''users/by/username/'' @ username @ ''?user.fields=profile_image_url'') =
       Inr (Some user) \<and>
     twitter_tweets env (''users/'' @ tu_id user @ ''/tweets?max_results=5'') =
       Inr (latest # older) \<longrightarrow>
       (fst (verifyUser env w publicKey username ''twitter'') =
          Inl (NotFound ''Cannot find specified post'')) =
         (\<forall>a b. latest \<noteq> a @ publicKey @ b) \<and>
       ((\<exists>a b. latest = a @ publicKey @ b) \<longrightarrow>
          verifyUser env w publicKey username ''twitter'' =
            link_and_transfer env w
              \<lparr>su_id = tu_id user, su_username = tu_username user, su_platform = ''twitter'',
               su_profile_image_url =
                 Some (case tu_profile_image_url user of
                         None \<Rightarrow> []
                       | Some url \<Rightarrow> replace_first url ''normal'' ''400x400'')\<rparr>
              publicKey (tu_id user))) \<and>
    (reddit_about env (''user/'' @ username @ ''/about.json'') = Inr redditUser \<and>
     reddit_children env (''user/'' @ username @ ''/.json?limit=1'') = Inr (title # earlier) \<longrightarrow>
       (fst (verifyUser env w publicKey username ''reddit'') =
          Inl (NotFound ''Cannot find specified post'')) =
         (\<forall>a b. title \<noteq> a @ publicKey @ b) \<and>
       ((\<exists>a b. title = a @ publicKey @ b) \<longrightarrow>
          verifyUser env w publicKey username ''reddit'' =
            link_and_transfer env w
              \<lparr>su_id = ''t2_'' @ ru_id redditUser, su_username = ru_name redditUser,
               su_platform = ''reddit'',
               su_profile_image_url =
                 Some (case ru_icon_img redditUser of
                         None \<Rightarrow> []
                       | Some img \<Rightarrow> first_piece img ''?'')\<rparr>
              publicKey (''t2_'' @ ru_id redditUser))) \<and>
    (fst (link_and_transfer env w u publicKey account) = Inr True) =
      (\<exists>w'. createCredential w u publicKey = Inr w' \<and>
             fst (transferTipsToUser (chain env) (posts w') publicKey account) = Inr ())"
proof -
  let ?D = "\<lparr>su_id = tu_id user, su_username = tu_username user, su_platform = ''twitter'',
               su_profile_image_url =
                 Some (case tu_profile_image_url user of
                         None \<Rightarrow> []
                       | Some url \<Rightarrow> replace_first url ''normal'' ''400x400'')\<rparr>"
  let ?R = "\<lparr>su_id = ''t2_'' @ ru_id redditUser, su_username = ru_name redditUser,
               su_platform = ''reddit'',
               su_profile_image_url =
                 Some (case ru_icon_img redditUser of
                         None \<Rightarrow> []
                       | Some img \<Rightarrow> first_piece img ''?'')\<rparr>"
  have tw: "(fst (verifyUser env w publicKey username ''twitter'') =
          Inl (NotFound ''Cannot find specified post'')) =
         (\<forall>a b. latest \<noteq> a @ publicKey @ b) \<and>
       ((\<exists>a b. latest = a @ publicKey @ b) \<longrightarrow>
          verifyUser env w publicKey username ''twitter'' =
            link_and_transfer env w ?D publicKey (tu_id user))"
    if "twitter_user env (''users/by/username/'' @ username @ ''?user.fields=profile_image_url'') =
          Inr (Some user)"
      and "twitter_tweets env (''users/'' @ tu_id user @ ''/tweets?max_results=5'') =
          Inr (latest # older)"
    unfolding verifyUser_twitter [OF plain that] by (rule found_or_not)
  have rd: "(fst (verifyUser env w publicKey username ''reddit'') =
          Inl (NotFound ''Cannot find specified post'')) =
         (\<forall>a b. title \<noteq> a @ publicKey @ b) \<and>
       ((\<exists>a b. title = a @ publicKey @ b) \<longrightarrow>
          verifyUser env w publicKey username ''reddit'' =
            link_and_transfer env w ?R publicKey (''t2_'' @ ru_id redditUser))"
    if "reddit_about env (''user/'' @ username @ ''/about.json'') = Inr redditUser"
      and "reddit_children env (''user/'' @ username @ ''/.json?limit=1'') = Inr (title # earlier)"
    unfolding verifyUser_reddit [OF plain that] by (rule found_or_not)
  from tw rd link_and_transfer_True [of env w u publicKey account] show ?thesis
    by blast
qed


lemmas social_eval = demo_services_def key_first_services_def eighth_word_services_def
  alice_lookup_def tweets_key_second_def tweets_key_first_def tweets_eighth_word_def
  reddit_alice_def reddit_titles_def facebook_canned_def facebook_eighth_word_def
  no_regexp_def empty_world_def linked_world_def facebook_world_def alice_twitter_def

theorem verifyUser_first_post_witness:
  "\<not> list_ex regexp_special ''5Alice'' \<and>
   twitter_tweets key_first_services ''users/tw-1/tweets?max_results=5'' =
     Inr [''my key 5Alice'', ''good morning''] \<and>
   verifyUser key_first_services empty_world ''5Alice'' ''alice'' ''twitter'' =
     (Inr True, linked_world\<lparr>chain_log := [Connect, Disconnect]\<rparr>)"
proof -
  have plain: "\<not> list_ex regexp_special ''5Alice''"
    by (simp add: regexp_special_def)
  have fetched:
    "twitter_user key_first_services
        (''users/by/username/'' @ ''alice'' @ ''?user.fields=profile_image_url'') =
       Inr (Some \<lparr>tu_id = ''tw-1'', tu_username = ''alice'',
                  tu_profile_image_url = Some ''https://img.example/a_normal.jpg''\<rparr>) \<and>
     twitter_tweets key_first_services
        (''users/'' @ tu_id \<lparr>tu_id = ''tw-1'', tu_username = ''alice'',
                  tu_profile_image_url = Some ''https://img.example/a_normal.jpg''\<rparr> @
         ''/tweets?max_results=5'') =
       Inr (''my key 5Alice'' # [''good morning''])"
    by (simp add: social_eval)
  have occurs: "\<exists>a b. ''my key 5Alice'' = a @ ''5Alice'' @ b"
    by (rule exI [of _ "''my key ''"], rule exI [of _ "[]"]) simp
  from verifyUser_first_post [OF plain, where env = key_first_services and username = "''alice''"
      and user = "\<lparr>tu_id = ''tw-1'', tu_username = ''alice'',
                  tu_profile_image_url = Some ''https://img.example/a_normal.jpg''\<rparr>"
      and latest = "''my key 5Alice''" and older = "[''good morning'']" and w = empty_world]
    fetched occurs
  have "verifyUser key_first_services empty_world ''5Alice'' ''alice'' ''twitter'' =
      link_and_transfer key_first_services empty_world
        \<lparr>su_id = tu_id \<lparr>tu_id = ''tw-1'', tu_username = ''alice'',
                  tu_profile_image_url = Some ''https://img.example/a_normal.jpg''\<rparr>,
         su_username = tu_username \<lparr>tu_id = ''tw-1'', tu_username = ''alice'',
                  tu_profile_image_url = Some ''https://img.example/a_normal.jpg''\<rparr>,
         su_platform = ''twitter'',
         su_profile_image_url =
           Some (case tu_profile_image_url \<lparr>tu_id = ''tw-1'', tu_username = ''alice'',
                  tu_profile_image_url = Some ''https://img.example/a_normal.jpg''\<rparr> of
                   None \<Rightarrow> []
                 | Some url \<Rightarrow> replace_first url ''normal'' ''400x400'')\<rparr>
        ''5Alice''
        (tu_id \<lparr>tu_id = ''tw-1'', tu_username = ''alice'',
                  tu_profile_image_url = Some ''https://img.example/a_normal.jpg''\<rparr>)"
    by blast
  also have "\<dots> = (Inr True, linked_world\<lparr>chain_log := [Connect, Disconnect]\<rparr>)"
    by (simp add: link_and_transfer_def createCredential_def replace_first_def indexOf_def
        startsWith_def social_eval chain_eval)
  finally show ?thesis using plain by (simp add: social_eval)
qed

text \<open>
  C8, as stated: the verification fails with ProofNotFound exactly when the public key
  occurs in none of the fetched tweets. With the key in the second of two fetched tweets,
  the verification fails with \<^verbatim>\<open>NotFound('Cannot find specified post')\<close>.
\<close>

theorem proof_in_second_tweet_not_found:
  "twitter_tweets demo_services ''users/tw-1/tweets?max_results=5'' =
     Inr [''good morning'', ''my key 5Alice''] \<and>
   ''my key 5Alice'' = ''my key '' @ ''5Alice'' @ [] \<and>
   verifyUser demo_services empty_world ''5Alice'' ''alice'' ''twitter'' =
     (Inl (NotFound ''Cannot find specified post''), empty_world)"
  by (simp add: verifyUser_def search_def regexp_special_def indexOf_def startsWith_def
      social_eval)

text \<open>
  C10. For every platform other than \<^verbatim>\<open>twitter\<close> and \<^verbatim>\<open>reddit\<close>, and so for
  \<^verbatim>\<open>facebook\<close>, the first verification mode throws
  \<^verbatim>\<open>NotFound('Platform does not exist')\<close> and leaves the world as it is: no persona, no
  credential, no chain call. The second mode has a facebook branch: for a facebook persona
  whose post carries the key after the phrase, it returns \<^verbatim>\<open>true\<close>.
\<close>

theorem verifyUser_unknown_platform:
  "(platform \<noteq> ''twitter'' \<and> platform \<noteq> ''reddit'' \<longrightarrow>
      verifyUser env w publicKey username platform =
        (Inl (NotFound ''Platform does not exist''), w)) \<and>
   verifyUser env w publicKey username ''facebook'' =
     (Inl (NotFound ''Platform does not exist''), w) \<and>
   verify demo_services facebook_world ''5Alice'' 0 =
     (True, facebook_world\<lparr>chain_log := [Connect, Disconnect]\<rparr>)"
  by (simp add: verifyUser_def verify_def verify_body_def confirm_or_revoke_def search_def
      regexp_special_def facebook_phrase_def indexOf_def startsWith_def substring_def
      social_eval chain_eval)

theorem verifyUser_unknown_platform_witness:
  "verifyUser demo_services linked_world ''5Alice'' ''alice'' ''instagram'' =
     (Inl (NotFound ''Platform does not exist''), linked_world)"
proof -
  have h: "''instagram'' \<noteq> ''twitter'' \<and> ''instagram'' \<noteq> ''reddit''" by simp
  from verifyUser_unknown_platform [of "''instagram''" demo_services linked_world "''5Alice''"
      "''alice''"] h
  show ?thesis by blast
qed


lemma at_Cons_numeral: "at (x # xs) (numeral k) = at xs (pred_numeral k)"
  by (simp add: numeral_eq_Suc)

lemma phrase_plain: "\<not> list_ex regexp_special facebook_phrase"
  by (simp add: facebook_phrase_def regexp_special_def)

lemma verify_confirm_or_revoke:
  "(case confirm_or_revoke env w cred userId peopleId key of
      (Inl err, w') \<Rightarrow> (False, w')
    | (Inr b, w') \<Rightarrow> (b, w')) =
   (if key = Some userId then
      (case transferEscorwToUser (chain env) (posts w) peopleId userId of
         (Inl e, evs) \<Rightarrow> (False, w\<lparr>chain_log := chain_log w @ evs\<rparr>)
       | (Inr u, evs) \<Rightarrow> (True, w\<lparr>chain_log := chain_log w @ evs\<rparr>))
    else (False, w\<lparr>credentials := filter (\<lambda>c. uc_id c \<noteq> uc_id cred) (credentials w)\<rparr>))"
  by (simp add: confirm_or_revoke_def split: prod.splits sum.splits)

text \<open>
  C9, amended. Let the persona and the credential of the request exist. For a twitter
  persona with a fetched tweet, \<^verbatim>\<open>userId\<close> is compared with the piece at index 7 of the
  first tweet's text, split at single spaces after every newline has become a space. For a
  facebook persona, \<^verbatim>\<open>userId\<close> is compared with the 49 characters (fewer at the end of
  the text) after the first occurrence of the phrase
  \<^verbatim>\<open>Saying hi to #MyriadNetwork Public Key: \<close> in the fetched posts, and with nothing
  when the phrase does not occur. In both cases a mismatch deletes the credential and gives
  \<^verbatim>\<open>false\<close>; a match runs the escrow sweep and gives \<^verbatim>\<open>true\<close>, or \<^verbatim>\<open>false\<close>
  when the sweep throws. Whatever the body of the \<^verbatim>\<open>try\<close> block throws, the result is
  \<^verbatim>\<open>false\<close>.
\<close>

theorem verify_reads_key:
  assumes "find (\<lambda>person. pe_id person = peopleId) (people w) = Some person"
    and "find (\<lambda>c. uc_userId c = userId \<and> uc_peopleId c = peopleId) (credentials w) = Some cred"
  shows
   "(pe_platform person = ''twitter'' \<and>
     twitter_tweets env (''users/'' @ pe_platform_account_id person @ ''}/tweets?max_results=5'') =
       Inr (latest # older) \<longrightarrow>
       verify env w userId peopleId =
         (if at (split (replace_all_char (CHR 0x0A) latest) '' '') 7 = Some userId then
            (case transferEscorwToUser (chain env) (posts w) peopleId userId of
               (Inl e, evs) \<Rightarrow> (False, w\<lparr>chain_log := chain_log w @ evs\<rparr>)
             | (Inr u, evs) \<Rightarrow> (True, w\<lparr>chain_log := chain_log w @ evs\<rparr>))
          else (False,
                w\<lparr>credentials := filter (\<lambda>c. uc_id c \<noteq> uc_id cred) (credentials w)\<rparr>))) \<and>
    (pe_platform person = ''facebook'' \<and>
     facebook_posts env (pe_platform_account_id person) = Inr wall \<longrightarrow>
       verify env w userId peopleId =
         (if (case indexOf wall facebook_phrase of
                None \<Rightarrow> None
              | Some i \<Rightarrow>
                  Some (substring wall (i + length facebook_phrase)
                          (i + length facebook_phrase + 49))) = Some userId then
            (case transferEscorwToUser (chain env) (posts w) peopleId userId of
               (Inl e, evs) \<Rightarrow> (False, w\<lparr>chain_log := chain_log w @ evs\<rparr>)
             | (Inr u, evs) \<Rightarrow> (True, w\<lparr>chain_log := chain_log w @ evs\<rparr>))
          else (False,
                w\<lparr>credentials := filter (\<lambda>c. uc_id c \<noteq> uc_id cred) (credentials w)\<rparr>))) \<and>
    (fst (verify_body env w userId peopleId) = Inl err \<longrightarrow>
       fst (verify env w userId peopleId) = False)"
proof -
  have tw: "verify env w userId peopleId =
         (if at (split (replace_all_char (CHR 0x0A) latest) '' '') 7 = Some userId then
            (case transferEscorwToUser (chain env) (posts w) peopleId userId of
               (Inl e, evs) \<Rightarrow> (False, w\<lparr>chain_log := chain_log w @ evs\<rparr>)
             | (Inr u, evs) \<Rightarrow> (True, w\<lparr>chain_log := chain_log w @ evs\<rparr>))
          else (False,
                w\<lparr>credentials := filter (\<lambda>c. uc_id c \<noteq> uc_id cred) (credentials w)\<rparr>))"
    if "pe_platform person = ''twitter''"
      and "twitter_tweets env
            (''users/'' @ pe_platform_account_id person @ ''}/tweets?max_results=5'') =
           Inr (latest # older)"
    using assms that
    by (simp add: verify_def verify_body_def verify_confirm_or_revoke)
  have fb: "verify env w userId peopleId =
         (if (case indexOf wall facebook_phrase of
                None \<Rightarrow> None
              | Some i \<Rightarrow>
                  Some (substring wall (i + length facebook_phrase)
                          (i + length facebook_phrase + 49))) = Some userId then
            (case transferEscorwToUser (chain env) (posts w) peopleId userId of
               (Inl e, evs) \<Rightarrow> (False, w\<lparr>chain_log := chain_log w @ evs\<rparr>)
             | (Inr u, evs) \<Rightarrow> (True, w\<lparr>chain_log := chain_log w @ evs\<rparr>))
          else (False,
                w\<lparr>credentials := filter (\<lambda>c. uc_id c \<noteq> uc_id cred) (credentials w)\<rparr>))"
    if "pe_platform person = ''facebook''"
      and "facebook_posts env (pe_platform_account_id person) = Inr wall"
    using assms that
    by (simp add: verify_def verify_body_def verify_confirm_or_revoke search_plain phrase_plain)
  have er: "fst (verify env w userId peopleId) = False"
    if "fst (verify_body env w userId peopleId) = Inl err"
    using that by (cases "verify_body env w userId peopleId") (simp add: verify_def)
  from tw fb er show ?thesis by blast
qed

theorem verify_reads_key_witness:
  "verify eighth_word_services (linked_world\<lparr>posts := demo_posts\<rparr>) ''5Alice'' 0 =
     (True,
      linked_world
        \<lparr>posts := demo_posts,
         chain_log :=
           [Connect, QueryAccount ''addr://p1'',
            TransferSubmit ''addr://p1'' ''5Alice'' 374999853,
            QueryAccount ''addr://p2'', QueryAccount ''addr://p3'',
            TransferSubmit ''addr://p3'' ''5Alice'' 174999853, Disconnect]\<rparr>) \<and>
   verify key_first_services linked_world ''5Alice'' 0 =
     (False, linked_world\<lparr>credentials := []\<rparr>) \<and>
   verify demo_services facebook_world ''5Alice'' 0 =
     (True, facebook_world\<lparr>chain_log := [Connect, Disconnect]\<rparr>)"
proof -
  let ?w = "linked_world\<lparr>posts := demo_posts\<rparr>"
  let ?person = "\<lparr>pe_id = 0, pe_username = ''alice'', pe_platform_account_id = ''tw-1'',
                  pe_platform = ''twitter'',
                  pe_profile_image_url = Some ''https://img.example/a_400x400.jpg''\<rparr>"
  let ?cred = "\<lparr>uc_id = 1, uc_userId = ''5Alice'', uc_peopleId = 0, uc_isLogin = True\<rparr>"
  have p: "find (\<lambda>person. pe_id person = 0) (people ?w) = Some ?person"
    by (simp add: linked_world_def)
  have c: "find (\<lambda>c. uc_userId c = ''5Alice'' \<and> uc_peopleId c = 0) (credentials ?w) = Some ?cred"
    by (simp add: linked_world_def)
  have f: "pe_platform ?person = ''twitter'' \<and>
     twitter_tweets eighth_word_services
       (''users/'' @ pe_platform_account_id ?person @ ''}/tweets?max_results=5'') =
       Inr (''I am saying hi to #MyriadNetwork key: 5Alice'' # [])"
    by (simp add: social_eval)
  from verify_reads_key [OF p c, where env = eighth_word_services
      and latest = "''I am saying hi to #MyriadNetwork key: 5Alice''" and older = "[]"] f
  have "verify eighth_word_services ?w ''5Alice'' 0 =
         (if at (split (replace_all_char (CHR 0x0A)
                   ''I am saying hi to #MyriadNetwork key: 5Alice'') '' '') 7 = Some ''5Alice'' then
            (case transferEscorwToUser (chain eighth_word_services) (posts ?w) 0 ''5Alice'' of
               (Inl e, evs) \<Rightarrow> (False, ?w\<lparr>chain_log := chain_log ?w @ evs\<rparr>)
             | (Inr u, evs) \<Rightarrow> (True, ?w\<lparr>chain_log := chain_log ?w @ evs\<rparr>))
          else (False,
                ?w\<lparr>credentials := filter (\<lambda>c. uc_id c \<noteq> uc_id ?cred) (credentials ?w)\<rparr>))"
    by blast
  then have 1: "verify eighth_word_services ?w ''5Alice'' 0 =
     (True,
      linked_world
        \<lparr>posts := demo_posts,
         chain_log :=
           [Connect, QueryAccount ''addr://p1'',
            TransferSubmit ''addr://p1'' ''5Alice'' 374999853,
            QueryAccount ''addr://p2'', QueryAccount ''addr://p3'',
            TransferSubmit ''addr://p3'' ''5Alice'' 174999853, Disconnect]\<rparr>)"
    by (simp add: replace_all_char_def split_def startsWith_def at_Cons_numeral
        social_eval chain_eval)
  have 2: "verify key_first_services linked_world ''5Alice'' 0 =
     (False, linked_world\<lparr>credentials := []\<rparr>)"
    by (simp add: verify_def verify_body_def confirm_or_revoke_def replace_all_char_def
        split_def startsWith_def at_Cons_numeral social_eval)
  have 3: "verify demo_services facebook_world ''5Alice'' 0 =
     (True, facebook_world\<lparr>chain_log := [Connect, Disconnect]\<rparr>)"
    by (simp add: verify_def verify_body_def confirm_or_revoke_def search_def
      regexp_special_def facebook_phrase_def indexOf_def startsWith_def substring_def
      social_eval chain_eval)
  from 1 2 3 show ?thesis by blast
qed


text \<open>
  C9, as stated: \<^verbatim>\<open>userId\<close> is compared with the token at index 7 of the split text
  of the latest post. For a facebook persona whose post has \<^verbatim>\<open>userId\<close> as its token at
  index 7, but not the phrase, the verification deletes the credential and returns
  \<^verbatim>\<open>false\<close>.
\<close>

theorem facebook_key_at_word_seven_revoked:
  "facebook_posts key_first_services ''fb-1'' = Inr ''I am saying hi to Myriad, key: 5Alice'' \<and>
   at (split ''I am saying hi to Myriad, key: 5Alice'' '' '') 7 = Some ''5Alice'' \<and>
   verify key_first_services facebook_world ''5Alice'' 0 =
     (False, facebook_world\<lparr>credentials := []\<rparr>)"
  by (simp add: verify_def verify_body_def confirm_or_revoke_def search_def
      regexp_special_def facebook_phrase_def indexOf_def startsWith_def substring_def split_def
      at_Cons_numeral social_eval chain_eval)

end
